theory Spec2Isabelle
  imports
    Main
    "HOL-Library.Char_ord"
    "HOL-Library.List_Lexorder"
    "HOL-Library.Product_Lexorder"
    "HOL-Library.Multiset"
begin

section \<open>Strings and time, as the Go code uses them\<close>

text \<open>
  A Go string is a sequence of bytes; \<open>string\<close> (a list of 8-bit characters) is the
  same thing, and \<open>length\<close> is Go's \<open>len\<close>.

  \<open>strings.TrimSpace\<close> removes leading and trailing white space as defined by
  \<open>unicode.IsSpace\<close>: the six ASCII characters tab, line feed, vertical tab, form feed,
  carriage return and space, and the runes U+0085, U+00A0, U+1680, U+2000..U+200A,
  U+2028, U+2029, U+202F, U+205F and U+3000, which are two or three bytes in UTF-8.
\<close>

definition asciiSpace :: "char \<Rightarrow> bool" where
  "asciiSpace c \<longleftrightarrow>
     c = CHR 0x09 \<or> c = CHR 0x0A \<or> c = CHR 0x0B \<or> c = CHR 0x0C \<or> c = CHR 0x0D \<or> c = CHR 0x20"

definition wideSpace2 :: "string list" where
  "wideSpace2 = [[CHR 0xC2, CHR 0x85], [CHR 0xC2, CHR 0xA0]]"

definition wideSpace3 :: "string list" where
  "wideSpace3 =
     [[CHR 0xE1, CHR 0x9A, CHR 0x80],
      [CHR 0xE2, CHR 0x80, CHR 0x80], [CHR 0xE2, CHR 0x80, CHR 0x81],
      [CHR 0xE2, CHR 0x80, CHR 0x82], [CHR 0xE2, CHR 0x80, CHR 0x83],
      [CHR 0xE2, CHR 0x80, CHR 0x84], [CHR 0xE2, CHR 0x80, CHR 0x85],
      [CHR 0xE2, CHR 0x80, CHR 0x86], [CHR 0xE2, CHR 0x80, CHR 0x87],
      [CHR 0xE2, CHR 0x80, CHR 0x88], [CHR 0xE2, CHR 0x80, CHR 0x89],
      [CHR 0xE2, CHR 0x80, CHR 0x8A],
      [CHR 0xE2, CHR 0x80, CHR 0xA8], [CHR 0xE2, CHR 0x80, CHR 0xA9],
      [CHR 0xE2, CHR 0x80, CHR 0xAF],
      [CHR 0xE2, CHR 0x81, CHR 0x9F],
      [CHR 0xE3, CHR 0x80, CHR 0x80]]"

text \<open>The width in bytes of a white-space rune at the head of the string, 0 when there is none.\<close>

definition leadingSpace :: "string \<Rightarrow> nat" where
  "leadingSpace s =
     (case s of
        [] \<Rightarrow> 0
      | c # _ \<Rightarrow>
          if asciiSpace c then 1
          else if List.member wideSpace2 (take 2 s) then 2
          else if List.member wideSpace3 (take 3 s) then 3
          else 0)"

text \<open>The same at the end of the string.\<close>

definition trailingSpace :: "string \<Rightarrow> nat" where
  "trailingSpace s =
     (case rev s of
        [] \<Rightarrow> 0
      | c # _ \<Rightarrow>
          if asciiSpace c then 1
          else if List.member wideSpace2 (drop (length s - 2) s) then 2
          else if List.member wideSpace3 (drop (length s - 3) s) then 3
          else 0)"

function trimLeft :: "string \<Rightarrow> string" where
  "trimLeft s = (if leadingSpace s = 0 then s else trimLeft (drop (leadingSpace s) s))"
  by pat_completeness auto
termination
proof (relation "measure length")
  fix s :: string
  assume "leadingSpace s \<noteq> 0"
  then have "s \<noteq> []" by (auto simp: leadingSpace_def)
  with \<open>leadingSpace s \<noteq> 0\<close> show "(drop (leadingSpace s) s, s) \<in> measure length" by simp
qed simp

function trimRight :: "string \<Rightarrow> string" where
  "trimRight s = (if trailingSpace s = 0 then s else trimRight (take (length s - trailingSpace s) s))"
  by pat_completeness auto
termination
proof (relation "measure length")
  fix s :: string
  assume "trailingSpace s \<noteq> 0"
  then have "s \<noteq> []" by (auto simp: trailingSpace_def)
  with \<open>trailingSpace s \<noteq> 0\<close> show "(take (length s - trailingSpace s) s, s) \<in> measure length" by simp
qed simp

declare trimLeft.simps [simp del] trimRight.simps [simp del]

definition TrimSpace :: "string \<Rightarrow> string" where
  "TrimSpace s = trimRight (trimLeft s)"

text \<open>\<open>strings.Contains(s, substr)\<close>: \<open>substr\<close> occurs in \<open>s\<close> as a contiguous run of bytes.\<close>

fun Contains :: "string \<Rightarrow> string \<Rightarrow> bool" where
  "Contains [] substr = (substr = [])"
| "Contains (c # cs) substr = (take (length substr) (c # cs) = substr \<or> Contains cs substr)"

text \<open>
  A \<open>time.Time\<close> is an instant, here in nanoseconds since the Unix epoch. The zero value
  of the type is January 1, year 1, 00:00:00 UTC, which is 62135596800 seconds before the
  epoch; \<open>IsZero\<close> tests for it and \<open>Unix\<close> gives whole seconds since the epoch.
\<close>

type_synonym time = int

definition zeroTime :: time where
  "zeroTime = - 62135596800 * 1000000000"

definition IsZero :: "time \<Rightarrow> bool" where
  "IsZero t \<longleftrightarrow> t = zeroTime"

definition Unix :: "time \<Rightarrow> int" where
  "Unix t = t div 1000000000"

text \<open>
  The store keeps a time as a whole number of milliseconds since the Unix epoch (a BSON
  datetime), dropping the rest of the instant; the zero time is a whole number of
  milliseconds and comes back as it is.
\<close>

definition storedTime :: "time \<Rightarrow> time" where
  "storedTime t = (t div 1000000) * 1000000"

text \<open>
  \<open>time.Now()\<close> reads the clock. A clock is the sequence of the readings to come, in
  call order; a function that reads it, and a call during which time passes, hands back
  the clock that remains.
\<close>

type_synonym clock = "nat \<Rightarrow> time"

definition tick :: "clock \<Rightarrow> clock" where
  "tick clk = (\<lambda>n. clk (Suc n))"

section \<open>Data model (internal/models/models.go)\<close>

record IngestionPost =
  ip_ID :: string
  ip_Title :: string
  ip_Body :: string
  ip_Author :: string
  ip_Score :: int
  ip_CreatedAt :: time
  ip_Flair :: string
  ip_URL :: string

text \<open>The store assigns \<open>_id\<close>; no code of the repository reads or writes it, and it is left out.\<close>

record Post =
  RedditID :: string
  Title :: string
  Body :: string
  Author :: string
  Score :: int
  Subreddit :: string
  URL :: string
  Flair :: string
  CreatedAt :: time
  InsertedAt :: time
  UpdatedAt :: time

record MonitorConfig =
  Enabled :: bool
  MaxPosts :: int

record SubredditMetadata =
  SubredditName :: string
  LastScrapedAt :: time
  MonitorConfig :: MonitorConfig
  md_CreatedAt :: time
  md_UpdatedAt :: time

record SubredditConfig =
  cfg_SubredditName :: string
  cfg_Enabled :: bool
  cfg_Schedule :: string
  cfg_MaxPosts :: int
  cfg_Priority :: int
  cfg_Description :: string
  cfg_CreatedAt :: time
  cfg_UpdatedAt :: time

section \<open>Record validator (internal/processor/processor.go)\<close>

text \<open>
  \<open>ProcessSubredditPosts\<close> loops over the fetched posts and appends the accepted ones.
  Each accepted post reads the clock twice (\<open>InsertedAt\<close>, then \<open>UpdatedAt\<close>). The
  last check of the loop body repeats the first one on the same two values.
\<close>

fun ProcessSubredditPosts :: "clock \<Rightarrow> IngestionPost list \<Rightarrow> string \<Rightarrow> Post list \<times> clock" where
  "ProcessSubredditPosts clk [] subreddit = ([], clk)"
| "ProcessSubredditPosts clk (ingestionPost # rest) subreddit =
     (let redditID = TrimSpace (ip_ID ingestionPost);
          title = TrimSpace (ip_Title ingestionPost)
      in if redditID = [] \<or> title = [] then ProcessSubredditPosts clk rest subreddit
         else if length redditID < 3 \<or> Contains redditID '' '' then
           ProcessSubredditPosts clk rest subreddit
         else
           let processedPost =
                 \<lparr>RedditID = redditID,
                  Title = title,
                  Body = TrimSpace (ip_Body ingestionPost),
                  Author = TrimSpace (ip_Author ingestionPost),
                  Score = ip_Score ingestionPost,
                  Subreddit = subreddit,
                  URL = TrimSpace (ip_URL ingestionPost),
                  Flair = TrimSpace (ip_Flair ingestionPost),
                  CreatedAt = ip_CreatedAt ingestionPost,
                  InsertedAt = clk 0,
                  UpdatedAt = clk 1\<rparr>;
               clk' = tick (tick clk)
           in if RedditID processedPost = [] \<or> Title processedPost = [] then
                ProcessSubredditPosts clk' rest subreddit
              else
                (case ProcessSubredditPosts clk' rest subreddit of
                   (processed, clk'') \<Rightarrow> (processedPost # processed, clk'')))"

section \<open>Storage (internal/storage/mongo_storage.go)\<close>

text \<open>The errors the code returns: its own, by message, and those it passes on.\<close>

datatype error =
    InvalidSubredditParam  \<comment> \<open>invalid or missing subreddit parameter\<close>
  | InvalidPostData  \<comment> \<open>invalid post data: reddit_id and title are required\<close>
  | NoValidPosts  \<comment> \<open>no valid posts to insert\<close>
  | AllInsertionsFailed  \<comment> \<open>all post insertions failed\<close>
  | DriverError string  \<comment> \<open>an error of the MongoDB driver\<close>
  | RequestError string  \<comment> \<open>an error of the ingestion client's request\<close>
  | SchedulerError string  \<comment> \<open>an error of the scheduler\<close>
  | Wrapped string error  \<comment> \<open>\<open>fmt.Errorf("...: %w", err)\<close>: a message in front of an error\<close>

text \<open>
  A collection is the list of its documents. \<open>UpdateOne\<close> with the upsert option changes
  the first document the filter matches by the \<open>$set\<close> fields, and when none matches
  inserts a new document built from the filter, \<open>$set\<close> and \<open>$setOnInsert\<close>.
  \<open>FindOne\<close> returns the first match, \<open>Find\<close> with a sort document the matches in
  sorted order.

  Whether a call to the driver fails is not decided by the code: each storage function
  takes the outcome of its driver call (\<open>None\<close>: no error), and a failed write leaves the
  collection as it was. Every time in a document is stored as \<open>storedTime\<close> of the
  instant the code hands to the driver.
\<close>

fun UpdateOne :: "('d \<Rightarrow> bool) \<Rightarrow> ('d \<Rightarrow> 'd) \<Rightarrow> 'd \<Rightarrow> 'd list \<Rightarrow> 'd list" where
  "UpdateOne matches setFields inserted [] = [inserted]"
| "UpdateOne matches setFields inserted (d # ds) =
     (if matches d then setFields d # ds else d # UpdateOne matches setFields inserted ds)"

definition FindOne :: "('d \<Rightarrow> bool) \<Rightarrow> 'd list \<Rightarrow> 'd option" where
  "FindOne matches coll = find matches coll"

definition Find :: "('d \<Rightarrow> bool) \<Rightarrow> ('d \<Rightarrow> 'k::linorder) \<Rightarrow> 'd list \<Rightarrow> 'd list" where
  "Find matches sortKey coll = sort_key sortKey (filter matches coll)"

record database =
  subreddit_metadata :: "SubredditMetadata list"
  subreddit_post :: "Post list"
  subreddit_config :: "SubredditConfig list"

definition GetSubredditMetadata ::
  "error option \<Rightarrow> database \<Rightarrow> string \<Rightarrow> error + SubredditMetadata option" where
  "GetSubredditMetadata err db subredditName =
     (case err of
        Some e \<Rightarrow> Inl e
      | None \<Rightarrow> Inr (FindOne (\<lambda>d. SubredditName d = subredditName) (subreddit_metadata db)))"

definition UpsertSubredditMetadata ::
  "error option \<Rightarrow> clock \<Rightarrow> database \<Rightarrow> SubredditMetadata \<Rightarrow> error option \<times> database \<times> clock" where
  "UpsertSubredditMetadata err clk db metadata =
     (let now = clk 0 in
      case err of
        Some e \<Rightarrow> (Some e, db, tick clk)
      | None \<Rightarrow>
          (None,
           db\<lparr>subreddit_metadata :=
                UpdateOne (\<lambda>d. SubredditName d = SubredditName metadata)
                  (\<lambda>d. d\<lparr>SubredditName := SubredditName metadata,
                          LastScrapedAt := storedTime (LastScrapedAt metadata),
                          MonitorConfig := MonitorConfig metadata,
                          md_UpdatedAt := storedTime now\<rparr>)
                  \<lparr>SubredditName = SubredditName metadata,
                   LastScrapedAt = storedTime (LastScrapedAt metadata),
                   MonitorConfig = MonitorConfig metadata,
                   md_CreatedAt = storedTime now,
                   md_UpdatedAt = storedTime now\<rparr>
                  (subreddit_metadata db)\<rparr>,
           tick clk))"

text \<open>
  The update document of a post, which \<open>UpsertPost\<close> and the loop of \<open>UpsertPosts\<close>
  both build: every field but \<open>inserted_at\<close> is under \<open>$set\<close>, \<open>inserted_at\<close> under
  \<open>$setOnInsert\<close>, and the filter is the \<open>reddit_id\<close>. \<open>storedPost\<close> is the
  document inserted when no document matches: all fields of the post, its three times as
  the store keeps them.
\<close>

definition storedPost :: "Post \<Rightarrow> Post" where
  "storedPost post =
     post\<lparr>CreatedAt := storedTime (CreatedAt post),
          InsertedAt := storedTime (InsertedAt post),
          UpdatedAt := storedTime (UpdatedAt post)\<rparr>"

definition setPostFields :: "Post \<Rightarrow> Post \<Rightarrow> Post" where
  "setPostFields post d =
     d\<lparr>RedditID := RedditID post,
       Title := Title post,
       Body := Body post,
       Author := Author post,
       Score := Score post,
       Subreddit := Subreddit post,
       URL := URL post,
       Flair := Flair post,
       CreatedAt := storedTime (CreatedAt post),
       UpdatedAt := storedTime (UpdatedAt post)\<rparr>"

definition upsertPostDocument :: "Post \<Rightarrow> Post list \<Rightarrow> Post list" where
  "upsertPostDocument post coll =
     UpdateOne (\<lambda>d. RedditID d = RedditID post) (setPostFields post) (storedPost post) coll"

text \<open>
  Both also start from the same two assignments: \<open>UpdatedAt\<close> becomes \<open>now\<close>, and
  so does an \<open>InsertedAt\<close> that is the zero time.
\<close>

definition stampPost :: "time \<Rightarrow> Post \<Rightarrow> Post" where
  "stampPost now post =
     (let post1 = post\<lparr>UpdatedAt := now\<rparr>
      in if IsZero (InsertedAt post1) then post1\<lparr>InsertedAt := now\<rparr> else post1)"


text \<open>The first loop of \<open>UpsertPosts\<close>: keep and clean the posts with a key and a title.\<close>

fun cleanValidPosts :: "Post list \<Rightarrow> Post list" where
  "cleanValidPosts [] = []"
| "cleanValidPosts (post # posts) =
     (if TrimSpace (RedditID post) \<noteq> [] \<and> TrimSpace (Title post) \<noteq> [] then
        post\<lparr>RedditID := TrimSpace (RedditID post),
             Title := TrimSpace (Title post),
             Body := TrimSpace (Body post),
             Author := TrimSpace (Author post),
             URL := TrimSpace (URL post),
             Flair := TrimSpace (Flair post)\<rparr> # cleanValidPosts posts
      else cleanValidPosts posts)"

text \<open>
  The second loop: one upsert per valid post. \<open>errs k\<close> is the outcome of the driver call
  for the \<open>k\<close>-th valid post; the state is the collection, \<open>successCount\<close> and
  \<open>errorCount\<close>.
\<close>

fun upsertEach ::
  "(nat \<Rightarrow> error option) \<Rightarrow> time \<Rightarrow> nat \<Rightarrow> Post list \<Rightarrow> Post list \<times> nat \<times> nat \<Rightarrow> Post list \<times> nat \<times> nat" where
  "upsertEach errs now k [] state = state"
| "upsertEach errs now k (post # validPosts) (coll, successCount, errorCount) =
     (let post' = stampPost now post
      in case errs k of
           Some e \<Rightarrow> upsertEach errs now (Suc k) validPosts (coll, successCount, errorCount + 1)
         | None \<Rightarrow>
             upsertEach errs now (Suc k) validPosts
               (upsertPostDocument post' coll, successCount + 1, errorCount))"

definition UpsertPosts ::
  "(nat \<Rightarrow> error option) \<Rightarrow> clock \<Rightarrow> database \<Rightarrow> Post list \<Rightarrow> error option \<times> database \<times> clock" where
  "UpsertPosts errs clk db posts =
     (if length posts = 0 then (None, db, clk)
      else
        let validPosts = cleanValidPosts posts in
        if length validPosts = 0 then (Some NoValidPosts, db, clk)
        else
          let now = clk 0 in
          case upsertEach errs now 0 validPosts (subreddit_post db, 0, 0) of
            (coll, successCount, errorCount) \<Rightarrow>
              if errorCount > 0 \<and> successCount = 0 then
                (Some AllInsertionsFailed, db\<lparr>subreddit_post := coll\<rparr>, tick clk)
              else (None, db\<lparr>subreddit_post := coll\<rparr>, tick clk))"

text \<open>
  The sort document of the config listings is \<open>priority\<close> descending, then
  \<open>subreddit_name\<close> ascending; strings compare byte by byte.
\<close>

definition configSortKey :: "SubredditConfig \<Rightarrow> int \<times> string" where
  "configSortKey c = (- cfg_Priority c, cfg_SubredditName c)"

definition GetActiveSubredditConfigs :: "error option \<Rightarrow> database \<Rightarrow> error + SubredditConfig list" where
  "GetActiveSubredditConfigs err db =
     (case err of
        Some e \<Rightarrow> Inl e
      | None \<Rightarrow> Inr (Find (\<lambda>c. cfg_Enabled c = True) configSortKey (subreddit_config db)))"

section \<open>Numbers as text (strconv, fmt) and query strings (net/url)\<close>

text \<open>
  \<open>strconv.Itoa\<close>, \<open>strconv.FormatInt(_, 10)\<close> and \<open>fmt.Sprintf("%d", _)\<close> all print
  an integer in decimal, with a minus sign when it is negative.
\<close>

definition digitChar :: "int \<Rightarrow> char" where
  "digitChar d = char_of (nat (48 + d))"

function decimalDigits :: "int \<Rightarrow> string" where
  "decimalDigits n =
     (if n < 10 then [digitChar n] else decimalDigits (n div 10) @ [digitChar (n mod 10)])"
  by pat_completeness auto
termination
  by (relation "measure nat") auto

declare decimalDigits.simps [simp del]

definition Itoa :: "int \<Rightarrow> string" where
  "Itoa i = (if i < 0 then CHR ''-'' # decimalDigits (- i) else decimalDigits i)"

text \<open>
  \<open>strconv.ParseInt(s, 10, 64)\<close> accepts an optional sign followed by one or more decimal
  digits, and fails on anything else and on a value outside the 64-bit range.
  \<open>strconv.Atoi\<close> is the same for an \<open>int\<close> of 64 bits.
\<close>

definition isDigit :: "char \<Rightarrow> bool" where
  "isDigit c \<longleftrightarrow> CHR ''0'' \<le> c \<and> c \<le> CHR ''9''"

definition digitValue :: "char \<Rightarrow> int" where
  "digitValue c = int (of_char c) - 48"

definition parseDigits :: "string \<Rightarrow> int option" where
  "parseDigits s =
     (if s = [] \<or> \<not> list_all isDigit s then None
      else Some (foldl (\<lambda>v c. 10 * v + digitValue c) 0 s))"

definition ParseInt :: "string \<Rightarrow> int option" where
  "ParseInt s =
     (case s of
        [] \<Rightarrow> None
      | c # cs \<Rightarrow>
          let neg = (c = CHR ''-'');
              digits = (if c = CHR ''+'' \<or> c = CHR ''-'' then cs else s)
          in (case parseDigits digits of
                None \<Rightarrow> None
              | Some v \<Rightarrow>
                  if \<not> neg \<and> v \<ge> 2 ^ 63 then None
                  else if neg \<and> v > 2 ^ 63 then None
                  else Some (if neg then - v else v)))"

definition Atoi :: "string \<Rightarrow> int option" where
  "Atoi s = ParseInt s"

text \<open>
  \<open>url.QueryEscape\<close> keeps letters, digits and \<open>- _ . ~\<close>, turns a space into \<open>+\<close> and
  every other byte into \<open>%XX\<close> with upper-case hexadecimal digits.
\<close>

definition unreserved :: "char \<Rightarrow> bool" where
  "unreserved c \<longleftrightarrow>
     (CHR ''a'' \<le> c \<and> c \<le> CHR ''z'') \<or> (CHR ''A'' \<le> c \<and> c \<le> CHR ''Z'') \<or>
     (CHR ''0'' \<le> c \<and> c \<le> CHR ''9'') \<or>
     c = CHR ''-'' \<or> c = CHR ''_'' \<or> c = CHR ''.'' \<or> c = CHR ''~''"

definition upperhex :: "nat \<Rightarrow> char" where
  "upperhex d = ''0123456789ABCDEF'' ! d"

definition escapeByte :: "char \<Rightarrow> string" where
  "escapeByte c =
     (if unreserved c then [c]
      else if c = CHR '' '' then ''+''
      else [CHR ''%'', upperhex (of_char c div 16), upperhex (of_char c mod 16)])"

definition QueryEscape :: "string \<Rightarrow> string" where
  "QueryEscape s = concat (map escapeByte s)"

text \<open>
  \<open>url.Values\<close> with the two operations the client uses. \<open>Set\<close> replaces the values of
  a key by one value; \<open>Encode\<close> writes \<open>key=value\<close> pairs, both escaped, in the order of
  the sorted keys, with \<open>&\<close> between them.
\<close>

type_synonym Values = "(string \<times> string) list"

definition Values_Set :: "Values \<Rightarrow> string \<Rightarrow> string \<Rightarrow> Values" where
  "Values_Set v key val = (key, val) # filter (\<lambda>(k, _). k \<noteq> key) v"

fun joinAmp :: "string list \<Rightarrow> string" where
  "joinAmp [] = []"
| "joinAmp [p] = p"
| "joinAmp (p # q # ps) = p @ ''&'' @ joinAmp (q # ps)"

definition Values_Encode :: "Values \<Rightarrow> string" where
  "Values_Encode v =
     joinAmp (map (\<lambda>(k, val). QueryEscape k @ ''='' @ QueryEscape val) (sort_key fst v))"

section \<open>Upstream fetcher (internal/client/ingestion_client.go)\<close>

text \<open>
  \<open>GetSubredditPosts\<close> builds the query, formats the endpoint and hands it to
  \<open>makeRequest\<close>, whose outcome (an error, or the posts decoded from the response) is the
  network's to decide: the client is given it as a function of the endpoint.
\<close>

definition subredditQuery :: "string \<Rightarrow> int \<Rightarrow> int \<Rightarrow> Values" where
  "subredditQuery subreddit limit sinceTimestamp =
     (let params = Values_Set [] ''subreddit'' subreddit;
          params = (if limit > 0 then Values_Set params ''limit'' (Itoa limit) else params);
          params = (if sinceTimestamp > 0 then
                      Values_Set params ''since_timestamp'' (Itoa sinceTimestamp)
                    else params)
      in params)"

definition subredditEndpoint :: "string \<Rightarrow> string \<Rightarrow> int \<Rightarrow> int \<Rightarrow> string" where
  "subredditEndpoint baseURL subreddit limit sinceTimestamp =
     baseURL @ ''/subreddit?'' @ Values_Encode (subredditQuery subreddit limit sinceTimestamp)"

definition GetSubredditPosts ::
  "string \<Rightarrow> (string \<Rightarrow> error + IngestionPost list) \<Rightarrow> string \<Rightarrow> int \<Rightarrow> int \<Rightarrow> error + IngestionPost list" where
  "GetSubredditPosts baseURL makeRequest subreddit limit sinceTimestamp =
     (case makeRequest (subredditEndpoint baseURL subreddit limit sinceTimestamp) of
        Inl err \<Rightarrow> Inl err
      | Inr posts \<Rightarrow> Inr posts)"

section \<open>Sync orchestrator (internal/tasks/subreddit_tasks.go)\<close>

text \<open>
  Task parameters are a map from names to values of any type; the task only ever asks
  whether a value is a string.
\<close>

datatype param = StringParam string | OtherParam

type_synonym TaskParams = "string \<Rightarrow> param option"

text \<open>
  The task manager: the two fields of the configuration the tasks read, and the ingestion
  client behind its interface. A fetch is a request over the network, during which time
  passes: the client is given the clock as it stands when it is called and hands back,
  with its result, the clock as it stands when it returns.
\<close>

record SubredditTaskManager =
  DefaultLimit :: int
  SubredditSchedule :: string
  client :: "string \<Rightarrow> int \<Rightarrow> int \<Rightarrow> clock \<Rightarrow> (error + IngestionPost list) \<times> clock"

text \<open>The outcomes of the driver calls of one run, for the storage functions it calls.\<close>

record driverOutcomes =
  getMetadataErr :: "error option"
  upsertPostErrs :: "nat \<Rightarrow> error option"
  upsertMetadataErr :: "error option"

text \<open>
  The parameters \<open>RegisterTasks\<close> gives the schedule of a config (lines 84 to 88): the
  limit is the config's \<open>MaxPosts\<close>, printed with \<open>%d\<close>, and the timestamp is empty.
\<close>

definition scheduleParams :: "SubredditConfig \<Rightarrow> TaskParams" where
  "scheduleParams config =
     [''subreddit'' \<mapsto> StringParam (cfg_SubredditName config),
      ''limit'' \<mapsto> StringParam (Itoa (cfg_MaxPosts config)),
      ''since_timestamp'' \<mapsto> StringParam []]"

text \<open>
  The loop of \<open>RegisterTasks\<close> over the active configs: each is registered with its own
  schedule, or the default one when that is empty, and a config the scheduler refuses is
  skipped. \<open>errs k\<close> is the outcome of the \<open>k\<close>-th call of \<open>RegisterSchedule\<close>; the
  result is the list of the schedules registered.
\<close>

fun registerSchedules ::
  "SubredditTaskManager \<Rightarrow> (nat \<Rightarrow> error option) \<Rightarrow> nat \<Rightarrow> SubredditConfig list \<Rightarrow>
     (TaskParams \<times> string) list" where
  "registerSchedules tm errs k [] = []"
| "registerSchedules tm errs k (config # configs) =
     (let schedule = (if cfg_Schedule config = [] then SubredditSchedule tm else cfg_Schedule config)
      in case errs k of
           Some e \<Rightarrow> registerSchedules tm errs (Suc k) configs
         | None \<Rightarrow> (scheduleParams config, schedule) # registerSchedules tm errs (Suc k) configs)"

text \<open>
  \<open>RegisterTasks\<close>, given the outcomes of registering the task, of the driver call that
  lists the configs and of the calls of \<open>RegisterSchedule\<close>: its error, and the schedules
  it has registered.
\<close>

definition RegisterTasks ::
  "SubredditTaskManager \<Rightarrow> error option \<Rightarrow> error option \<Rightarrow> (nat \<Rightarrow> error option) \<Rightarrow> database \<Rightarrow>
     error option \<times> (TaskParams \<times> string) list" where
  "RegisterTasks tm registerTaskErr configsErr scheduleErrs db =
     (case registerTaskErr of
        Some err \<Rightarrow> (Some (Wrapped ''failed to register subreddit monitoring task'' err), [])
      | None \<Rightarrow>
          (case GetActiveSubredditConfigs configsErr db of
             Inl err \<Rightarrow> (Some (Wrapped ''failed to get subreddit configs'' err), [])
           | Inr configs \<Rightarrow>
               if length configs = 0 then (None, [])
               else (None, registerSchedules tm scheduleErrs 0 configs)))"

text \<open>The limit of a run (lines 115 to 124 of \<open>monitorSubreddit\<close>).\<close>

definition resolveLimit :: "SubredditTaskManager \<Rightarrow> TaskParams \<Rightarrow> int" where
  "resolveLimit tm params =
     (case params ''limit'' of
        Some (StringParam limitStr) \<Rightarrow>
          if limitStr \<noteq> [] then
            (case Atoi limitStr of
               Some parsed \<Rightarrow> if parsed > 0 then parsed else DefaultLimit tm
             | None \<Rightarrow> DefaultLimit tm)
          else DefaultLimit tm
      | _ \<Rightarrow> DefaultLimit tm)"

text \<open>
  The manual timestamp of a run (lines 126 to 138): \<open>Some\<close> when \<open>hasManualTimestamp\<close>
  is set.
\<close>

definition manualTimestamp :: "TaskParams \<Rightarrow> int option" where
  "manualTimestamp params =
     (case params ''since_timestamp'' of
        Some (StringParam tsStr) \<Rightarrow>
          if tsStr \<noteq> [] then
            (case ParseInt tsStr of
               Some parsed \<Rightarrow> if parsed > 0 then Some parsed else None
             | None \<Rightarrow> None)
          else None
      | _ \<Rightarrow> None)"

text \<open>
  The timestamp the fetch is given (lines 126 to 156): the manual one, else the stored
  \<open>LastScrapedAt\<close> in seconds when there is one that is not the zero time, else 0. Reading
  the metadata can fail, which ends the run.
\<close>

definition resolveSince :: "error option \<Rightarrow> database \<Rightarrow> string \<Rightarrow> TaskParams \<Rightarrow> error + int" where
  "resolveSince err db subredditName params =
     (case manualTimestamp params of
        Some sinceTimestamp \<Rightarrow> Inr sinceTimestamp
      | None \<Rightarrow>
          (case GetSubredditMetadata err db subredditName of
             Inl e \<Rightarrow> Inl e
           | Inr metadata \<Rightarrow>
               (case metadata of
                  Some m \<Rightarrow> if \<not> IsZero (LastScrapedAt m) then Inr (Unix (LastScrapedAt m)) else Inr 0
                | None \<Rightarrow> Inr 0)))"

definition updateMetadata ::
  "error option \<Rightarrow> clock \<Rightarrow> database \<Rightarrow> string \<Rightarrow> int \<Rightarrow> time \<Rightarrow> error option \<times> database \<times> clock" where
  "updateMetadata err clk db subredditName limit scrapedAt =
     UpsertSubredditMetadata err clk db
       \<lparr>SubredditName = subredditName,
        LastScrapedAt = scrapedAt,
        MonitorConfig = \<lparr>Enabled = True, MaxPosts = limit\<rparr>,
        md_CreatedAt = zeroTime,
        md_UpdatedAt = zeroTime\<rparr>"

text \<open>
  The run from the clock reading on (lines 158 to 195): \<open>scrapeStartTime\<close> is read
  first, the fetch follows on the clock that remains, and the last reading is that of
  \<open>time.Since\<close>.
\<close>

definition scrape ::
  "SubredditTaskManager \<Rightarrow> driverOutcomes \<Rightarrow> database \<Rightarrow> clock \<Rightarrow> string \<Rightarrow> int \<Rightarrow> int \<Rightarrow>
     error option \<times> database \<times> clock" where
  "scrape tm outcomes db clk subredditName limit sinceTimestamp =
     (let scrapeStartTime = clk 0;
          clk1 = tick clk
      in case client tm subredditName limit sinceTimestamp clk1 of
           (Inl err, clk2) \<Rightarrow> (Some err, db, clk2)
         | (Inr ingestionPosts, clk2) \<Rightarrow>
             if length ingestionPosts = 0 then
               updateMetadata (upsertMetadataErr outcomes) clk2 db subredditName limit scrapeStartTime
             else
               (case ProcessSubredditPosts clk2 ingestionPosts subredditName of
                  (processedPosts, clk3) \<Rightarrow>
                    (case UpsertPosts (upsertPostErrs outcomes) clk3 db processedPosts of
                       (Some err, db2, clk4) \<Rightarrow> (Some err, db2, clk4)
                     | (None, db2, clk4) \<Rightarrow>
                         (case updateMetadata (upsertMetadataErr outcomes) clk4 db2 subredditName
                                 limit scrapeStartTime of
                            (Some err, db3, clk5) \<Rightarrow> (Some err, db3, clk5)
                          | (None, db3, clk5) \<Rightarrow> (None, db3, tick clk5)))))"

definition monitorSubreddit ::
  "SubredditTaskManager \<Rightarrow> driverOutcomes \<Rightarrow> TaskParams \<Rightarrow> database \<Rightarrow> clock \<Rightarrow>
     error option \<times> database \<times> clock" where
  "monitorSubreddit tm outcomes params db clk =
     (case params ''subreddit'' of
        Some (StringParam subredditName) \<Rightarrow>
          if subredditName = [] then (Some InvalidSubredditParam, db, clk)
          else
            let limit = resolveLimit tm params in
            (case resolveSince (getMetadataErr outcomes) db subredditName params of
               Inl err \<Rightarrow> (Some err, db, clk)
             | Inr sinceTimestamp \<Rightarrow> scrape tm outcomes db clk subredditName limit sinceTimestamp)
      | _ \<Rightarrow> (Some InvalidSubredditParam, db, clk))"

section \<open>Properties of the validator\<close>

lemma Contains_single: "Contains s [c] \<longleftrightarrow> c \<in> set s"
  by (induction s) auto

definition tabKeyPost :: IngestionPost where
  "tabKeyPost =
     \<lparr>ip_ID = [CHR ''a'', CHR 0x09, CHR ''b''], ip_Title = ''title'', ip_Body = [],
      ip_Author = ''someone'', ip_Score = 7, ip_CreatedAt = 1700000000000000000,
      ip_Flair = [], ip_URL = []\<rparr>"

text \<open>
  C5, as stated: an item whose trimmed key contains any white-space character yields no
  record. The key \<open>a<TAB>b\<close> contains a tab, is three bytes long, and is accepted: the
  validator only looks for the space character U+0020.
\<close>

theorem ProcessSubredditPosts_tab_key_accepted:
  "asciiSpace (CHR 0x09) \<and> CHR 0x09 \<in> set (TrimSpace (ip_ID tabKeyPost)) \<and>
   map RedditID (fst (ProcessSubredditPosts (\<lambda>n. int n) [tabKeyPost] ''golang'')) =
     [[CHR ''a'', CHR 0x09, CHR ''b'']]"
  by code_simp

text \<open>
  C5, amended: for every batch of raw items and owning source, the validator handles each
  item on its own and keeps the order. An item yields no record when its key is empty
  after trimming, or its title is empty after trimming, or the trimmed key is shorter than
  3 bytes, or the trimmed key contains a space character (U+0020); every other item
  yields exactly one record, whose \<open>Subreddit\<close> is the supplied source, whose string
  fields are the raw item's, trimmed, and whose score and creation time are the raw
  item's. The \<open>k\<close>-th record gets readings \<open>2k\<close> and \<open>2k + 1\<close> of the clock.
\<close>

theorem ProcessSubredditPosts_each:
  "ProcessSubredditPosts clk ingestionPosts sub =
     (let accepted =
            filter (\<lambda>ip. \<not> (TrimSpace (ip_ID ip) = [] \<or> TrimSpace (ip_Title ip) = [] \<or>
                             length (TrimSpace (ip_ID ip)) < 3 \<or>
                             CHR '' '' \<in> set (TrimSpace (ip_ID ip))))
              ingestionPosts
      in (map (\<lambda>(k, ip).
                 \<lparr>RedditID = TrimSpace (ip_ID ip),
                  Title = TrimSpace (ip_Title ip),
                  Body = TrimSpace (ip_Body ip),
                  Author = TrimSpace (ip_Author ip),
                  Score = ip_Score ip,
                  Subreddit = sub,
                  URL = TrimSpace (ip_URL ip),
                  Flair = TrimSpace (ip_Flair ip),
                  CreatedAt = ip_CreatedAt ip,
                  InsertedAt = clk (2 * k),
                  UpdatedAt = clk (Suc (2 * k))\<rparr>)
            (enumerate 0 accepted),
          \<lambda>n. clk (n + 2 * length accepted)))"
proof (induction ingestionPosts arbitrary: clk)
  case Nil
  show ?case by simp
next
  case (Cons ip rest)
  show ?case
  proof (cases "TrimSpace (ip_ID ip) = [] \<or> TrimSpace (ip_Title ip) = [] \<or>
                length (TrimSpace (ip_ID ip)) < 3 \<or> CHR '' '' \<in> set (TrimSpace (ip_ID ip))")
    case True
    then show ?thesis
      using Cons.IH [of clk] by (auto simp: Let_def Contains_single)
  next
    case False
    then show ?thesis
      using Cons.IH [of "tick (tick clk)"]
      by (simp add: Let_def Contains_single tick_def enumerate_Suc_eq case_prod_beta comp_def)
  qed
qed

definition shortKeyPost :: IngestionPost where
  "shortKeyPost = tabKeyPost\<lparr>ip_ID := ''ab''\<rparr>"

definition spacedKeyPost :: IngestionPost where
  "spacedKeyPost = tabKeyPost\<lparr>ip_ID := ''a b''\<rparr>"

definition paddedPost :: IngestionPost where
  "paddedPost = tabKeyPost\<lparr>ip_ID := '' t3_def '', ip_Title := ''  a title''\<rparr>"

text \<open>A rejected item does not end the batch: the items after it are still looked at.\<close>

theorem ProcessSubredditPosts_each_witness:
  "map (\<lambda>p. (RedditID p, Title p, Subreddit p, InsertedAt p, UpdatedAt p))
     (fst (ProcessSubredditPosts (\<lambda>n. 1000 + int n)
            [shortKeyPost, paddedPost, spacedKeyPost, tabKeyPost\<lparr>ip_ID := ''abc''\<rparr>] ''golang'')) =
   [(''t3_def'', ''a title'', ''golang'', 1000, 1001), (''abc'', ''title'', ''golang'', 1002, 1003)]"
proof -
  have trims: "TrimSpace ''ab'' = ''ab''" "TrimSpace '' t3_def '' = ''t3_def''"
    "TrimSpace ''  a title'' = ''a title''" "TrimSpace ''a b'' = ''a b''" "TrimSpace ''abc'' = ''abc''"
    "TrimSpace ''title'' = ''title''"
    by code_simp+
  show ?thesis
    using ProcessSubredditPosts_each [of "\<lambda>n. 1000 + int n"
        "[shortKeyPost, paddedPost, spacedKeyPost, tabKeyPost\<lparr>ip_ID := ''abc''\<rparr>]" "''golang''"]
    by (simp add: Let_def shortKeyPost_def paddedPost_def spacedKeyPost_def tabKeyPost_def trims
        enumerate_eq_zip)
qed

section \<open>Properties of the storage\<close>

subsection \<open>Upserts into a collection\<close>



lemma find_UpdateOne_same:
  assumes "\<And>d. key d = k \<Longrightarrow> key (f d) = k" and "key ins = k"
  shows "find (\<lambda>d. key d = k) (UpdateOne (\<lambda>d. key d = k) f ins coll) =
           Some (case find (\<lambda>d. key d = k) coll of None \<Rightarrow> ins | Some d \<Rightarrow> f d)"
  using assms by (induction coll) auto

lemma find_UpdateOne_other:
  assumes "\<And>d. key d = k \<Longrightarrow> key (f d) = k" and "key ins = k" and "k' \<noteq> k"
  shows "find (\<lambda>d. key d = k') (UpdateOne (\<lambda>d. key d = k) f ins coll) = find (\<lambda>d. key d = k') coll"
  using assms by (induction coll) auto









definition emptyDatabase :: database where
  "emptyDatabase = \<lparr>subreddit_metadata = [], subreddit_post = [], subreddit_config = []\<rparr>"

lemma trimLeft_Nil: "trimLeft [] = []"
  by (simp add: trimLeft.simps leadingSpace_def)

lemma trimRight_Nil: "trimRight [] = []"
  by (simp add: trimRight.simps trailingSpace_def)

lemma TrimSpace_Nil: "TrimSpace [] = []"
  by (simp add: TrimSpace_def trimLeft_Nil trimRight_Nil)

subsection \<open>Batches\<close>










subsection \<open>Upserting posts\<close>















section \<open>Properties of the config listing\<close>

definition exampleConfig :: "string \<Rightarrow> int \<Rightarrow> bool \<Rightarrow> SubredditConfig" where
  "exampleConfig name priority enabled =
     \<lparr>cfg_SubredditName = name, cfg_Enabled = enabled, cfg_Schedule = [], cfg_MaxPosts = 25,
      cfg_Priority = priority, cfg_Description = [], cfg_CreatedAt = 1, cfg_UpdatedAt = 1\<rparr>"

definition exampleConfigs :: "SubredditConfig list" where
  "exampleConfigs =
     [exampleConfig ''b'' 1 True, exampleConfig ''a'' 5 True, exampleConfig ''e'' 9 False,
      exampleConfig ''c'' 5 True, exampleConfig ''d'' 0 True]"

lemma GetActiveSubredditConfigs_example:
  "map_sum id (map cfg_SubredditName)
     (GetActiveSubredditConfigs None (emptyDatabase\<lparr>subreddit_config := exampleConfigs\<rparr>)) =
   Inr [''a'', ''c'', ''b'', ''d'']"
  by code_simp

lemma configSortKey_le:
  "configSortKey c \<le> configSortKey c' \<longleftrightarrow>
     cfg_Priority c' < cfg_Priority c \<or>
     (cfg_Priority c = cfg_Priority c' \<and> cfg_SubredditName c \<le> cfg_SubredditName c')"
  by (auto simp: configSortKey_def less_eq_prod_def)

text \<open>
  C8: when the driver reports no error, \<open>GetActiveSubredditConfigs\<close> returns exactly the
  stored configs with \<open>enabled = true\<close> (the same documents, as often as they are
  stored), and of any two returned configs the earlier one has the greater priority, or
  the same priority and the smaller or equal name. Priorities 1, 5, 5, 0 with names b, a,
  c, d (and a disabled e) come back in the order a, c, b, d.
\<close>

theorem GetActiveSubredditConfigs_ordered:
  "(GetActiveSubredditConfigs None db = Inr configs \<longrightarrow>
      mset configs = mset (filter cfg_Enabled (subreddit_config db)) \<and>
      (\<forall>i j. i < j \<and> j < length configs \<longrightarrow>
         cfg_Priority (configs ! j) < cfg_Priority (configs ! i) \<or>
         (cfg_Priority (configs ! i) = cfg_Priority (configs ! j) \<and>
          cfg_SubredditName (configs ! i) \<le> cfg_SubredditName (configs ! j)))) \<and>
   map_sum id (map cfg_SubredditName)
     (GetActiveSubredditConfigs None (emptyDatabase\<lparr>subreddit_config := exampleConfigs\<rparr>)) =
   Inr [''a'', ''c'', ''b'', ''d'']"
proof (intro conjI impI allI)
  assume "GetActiveSubredditConfigs None db = Inr configs"
  then have configs: "configs = sort_key configSortKey (filter cfg_Enabled (subreddit_config db))"
    by (simp add: GetActiveSubredditConfigs_def Find_def)
  show "mset configs = mset (filter cfg_Enabled (subreddit_config db))"
    by (simp add: configs)
  fix i j
  assume ij: "i < j \<and> j < length configs"
  have "sorted (map configSortKey configs)"
    by (simp add: configs)
  then have "map configSortKey configs ! i \<le> map configSortKey configs ! j"
    using ij by (simp add: sorted_iff_nth_mono_less)
  then have "configSortKey (configs ! i) \<le> configSortKey (configs ! j)"
    using ij by simp
  then show "cfg_Priority (configs ! j) < cfg_Priority (configs ! i) \<or>
         (cfg_Priority (configs ! i) = cfg_Priority (configs ! j) \<and>
          cfg_SubredditName (configs ! i) \<le> cfg_SubredditName (configs ! j))"
    by (simp add: configSortKey_le)
next
  show "map_sum id (map cfg_SubredditName)
     (GetActiveSubredditConfigs None (emptyDatabase\<lparr>subreddit_config := exampleConfigs\<rparr>)) =
   Inr [''a'', ''c'', ''b'', ''d'']"
    by (rule GetActiveSubredditConfigs_example)
qed

theorem GetActiveSubredditConfigs_ordered_witness:
  "GetActiveSubredditConfigs None (emptyDatabase\<lparr>subreddit_config := exampleConfigs\<rparr>) =
     Inr [exampleConfig ''a'' 5 True, exampleConfig ''c'' 5 True, exampleConfig ''b'' 1 True,
          exampleConfig ''d'' 0 True] \<and>
   mset [exampleConfig ''a'' 5 True, exampleConfig ''c'' 5 True, exampleConfig ''b'' 1 True,
          exampleConfig ''d'' 0 True] = mset (filter cfg_Enabled exampleConfigs)"
proof -
  have run: "GetActiveSubredditConfigs None (emptyDatabase\<lparr>subreddit_config := exampleConfigs\<rparr>) =
     Inr [exampleConfig ''a'' 5 True, exampleConfig ''c'' 5 True, exampleConfig ''b'' 1 True,
          exampleConfig ''d'' 0 True]"
    by code_simp
  show ?thesis
    using GetActiveSubredditConfigs_ordered [of "emptyDatabase\<lparr>subreddit_config := exampleConfigs\<rparr>"
        "[exampleConfig ''a'' 5 True, exampleConfig ''c'' 5 True, exampleConfig ''b'' 1 True,
          exampleConfig ''d'' 0 True]"] run
    by simp
qed

section \<open>Properties of the client\<close>

subsection \<open>Printing and parsing integers\<close>

lemma digitChar_cases:
  assumes "0 \<le> d" and "d < 10"
  shows "isDigit (digitChar d) \<and> digitValue (digitChar d) = d \<and> unreserved (digitChar d)"
proof -
  from assms have "d \<in> {0, 1, 2, 3, 4, 5, 6, 7, 8, 9}" by simp presburger
  then show ?thesis
    by (auto simp: isDigit_def digitValue_def digitChar_def unreserved_def less_eq_char_def)
qed

lemma isDigit_digitChar: "0 \<le> d \<Longrightarrow> d < 10 \<Longrightarrow> isDigit (digitChar d)"
  by (simp add: digitChar_cases)

lemma digitValue_digitChar: "0 \<le> d \<Longrightarrow> d < 10 \<Longrightarrow> digitValue (digitChar d) = d"
  by (simp add: digitChar_cases)

lemma decimalDigits_not_Nil: "decimalDigits n \<noteq> []"
  by (subst decimalDigits.simps) simp

lemma decimalDigits_all_digits: "0 \<le> n \<Longrightarrow> list_all isDigit (decimalDigits n)"
proof (induction n rule: decimalDigits.induct)
  case (1 n)
  show ?case
  proof (cases "n < 10")
    case True
    with "1.prems" show ?thesis by (subst decimalDigits.simps) (simp add: isDigit_digitChar)
  next
    case False
    with "1" show ?thesis by (subst decimalDigits.simps) (simp add: isDigit_digitChar)
  qed
qed

lemma decimalDigits_value:
  "0 \<le> n \<Longrightarrow> foldl (\<lambda>v c. 10 * v + digitValue c) 0 (decimalDigits n) = n"
proof (induction n rule: decimalDigits.induct)
  case (1 n)
  show ?case
  proof (cases "n < 10")
    case True
    with "1.prems" show ?thesis by (subst decimalDigits.simps) (simp add: digitValue_digitChar)
  next
    case False
    with "1" show ?thesis by (subst decimalDigits.simps) (simp add: digitValue_digitChar)
  qed
qed

lemma parseDigits_decimalDigits: "0 \<le> n \<Longrightarrow> parseDigits (decimalDigits n) = Some n"
  by (simp add: parseDigits_def decimalDigits_not_Nil decimalDigits_all_digits decimalDigits_value)

lemma isDigit_not_sign: "isDigit c \<Longrightarrow> c \<noteq> CHR ''+'' \<and> c \<noteq> CHR ''-''"
  by (auto simp: isDigit_def less_eq_char_def)

lemma ParseInt_decimalDigits:
  assumes "0 \<le> n" and "n < 2 ^ 63"
  shows "ParseInt (decimalDigits n) = Some n"
proof -
  obtain c cs where eq: "decimalDigits n = c # cs"
    using decimalDigits_not_Nil [of n] by (cases "decimalDigits n") auto
  have "isDigit c"
    using decimalDigits_all_digits [OF assms(1)] by (simp add: eq)
  then have "c \<noteq> CHR ''+''" "c \<noteq> CHR ''-''"
    using isDigit_not_sign by auto
  moreover have "parseDigits (c # cs) = Some n"
    using parseDigits_decimalDigits [OF assms(1)] by (simp add: eq)
  ultimately show ?thesis
    using assms(2) by (simp add: ParseInt_def eq)
qed

lemma ParseInt_Itoa:
  assumes "- (2 ^ 63) \<le> i" and "i < 2 ^ 63"
  shows "ParseInt (Itoa i) = Some i"
proof (cases "i < 0")
  case True
  then have "0 \<le> - i" and "\<not> - i > 2 ^ 63"
    using assms(1) by simp_all
  then show ?thesis
    using True by (simp add: ParseInt_def Itoa_def parseDigits_decimalDigits)
next
  case False
  then show ?thesis
    using assms(2) by (simp add: Itoa_def ParseInt_decimalDigits)
qed

lemma unreserved_digit: "isDigit c \<Longrightarrow> unreserved c"
  by (simp add: isDigit_def unreserved_def)

lemma QueryEscape_unreserved: "list_all unreserved s \<Longrightarrow> QueryEscape s = s"
  by (induction s) (simp_all add: QueryEscape_def escapeByte_def)

lemma decimalDigits_unreserved: "0 \<le> n \<Longrightarrow> list_all unreserved (decimalDigits n)"
  using decimalDigits_all_digits [of n] by (auto simp: list_all_iff unreserved_digit)

lemma QueryEscape_Itoa: "QueryEscape (Itoa i) = Itoa i"
  by (rule QueryEscape_unreserved) (simp add: Itoa_def decimalDigits_unreserved unreserved_def)

lemma eval_examples:
  "Itoa 100 = ''100''" "Itoa (- 15) = ''-15''" "Atoi ''-15'' = Some (- 15)"
  "Atoi ''9223372036854775808'' = None" "Atoi ''9223372036854775807'' = Some 9223372036854775807"
  "Atoi ''-9223372036854775808'' = Some (- 9223372036854775808)" "Atoi ''+7'' = Some 7"
  "Atoi ''7a'' = None" "Atoi [] = None" "Atoi ''-'' = None" "Atoi ''0'' = Some 0"
  by code_simp+

subsection \<open>The query of a fetch\<close>

lemma keys_order:
  "''limit'' \<le> ''since_timestamp''" "''since_timestamp'' \<le> ''subreddit''" "''limit'' \<le> ''subreddit''"
  "\<not> ''subreddit'' \<le> ''limit''" "\<not> ''subreddit'' \<le> ''since_timestamp''"
  "\<not> ''since_timestamp'' \<le> ''limit''"
  by code_simp+

lemma keys_escape:
  "QueryEscape ''limit'' = ''limit''" "QueryEscape ''since_timestamp'' = ''since_timestamp''"
  "QueryEscape ''subreddit'' = ''subreddit''"
  by code_simp+

lemma subredditQuery_eq:
  "subredditQuery subreddit limit sinceTimestamp =
     (if sinceTimestamp > 0 then [(''since_timestamp'', Itoa sinceTimestamp)] else []) @
     (if limit > 0 then [(''limit'', Itoa limit)] else []) @
     [(''subreddit'', subreddit)]"
  by (simp add: subredditQuery_def Values_Set_def Let_def)

text \<open>
  C9: the query of a fetch has a \<open>limit\<close> entry exactly when the limit is positive and a
  \<open>since_timestamp\<close> entry exactly when the timestamp is positive, each holding the
  number in decimal; the endpoint requested is the base URL, \<open>/subreddit?\<close>, and the
  entries present in the order limit, since_timestamp, subreddit, the numbers unchanged by
  escaping; and the result of the call is the result of the request to that endpoint.
\<close>

theorem GetSubredditPosts_query:
  "map_of (subredditQuery subreddit limit sinceTimestamp) ''limit'' =
     (if limit > 0 then Some (Itoa limit) else None) \<and>
   map_of (subredditQuery subreddit limit sinceTimestamp) ''since_timestamp'' =
     (if sinceTimestamp > 0 then Some (Itoa sinceTimestamp) else None) \<and>
   map_of (subredditQuery subreddit limit sinceTimestamp) ''subreddit'' = Some subreddit \<and>
   subredditEndpoint baseURL subreddit limit sinceTimestamp =
     baseURL @ ''/subreddit?'' @
     (if limit > 0 then ''limit='' @ Itoa limit @ ''&'' else []) @
     (if sinceTimestamp > 0 then ''since_timestamp='' @ Itoa sinceTimestamp @ ''&'' else []) @
     ''subreddit='' @ QueryEscape subreddit \<and>
   GetSubredditPosts baseURL makeRequest subreddit limit sinceTimestamp =
     makeRequest (subredditEndpoint baseURL subreddit limit sinceTimestamp)"
proof (intro conjI)
  show "map_of (subredditQuery subreddit limit sinceTimestamp) ''limit'' =
     (if limit > 0 then Some (Itoa limit) else None)"
    by (simp add: subredditQuery_eq)
  show "map_of (subredditQuery subreddit limit sinceTimestamp) ''since_timestamp'' =
     (if sinceTimestamp > 0 then Some (Itoa sinceTimestamp) else None)"
    by (simp add: subredditQuery_eq)
  show "map_of (subredditQuery subreddit limit sinceTimestamp) ''subreddit'' = Some subreddit"
    by (simp add: subredditQuery_eq)
  show "subredditEndpoint baseURL subreddit limit sinceTimestamp =
     baseURL @ ''/subreddit?'' @
     (if limit > 0 then ''limit='' @ Itoa limit @ ''&'' else []) @
     (if sinceTimestamp > 0 then ''since_timestamp='' @ Itoa sinceTimestamp @ ''&'' else []) @
     ''subreddit='' @ QueryEscape subreddit"
    unfolding subredditEndpoint_def Values_Encode_def subredditQuery_eq
    by (simp add: keys_order keys_escape QueryEscape_Itoa)
  show "GetSubredditPosts baseURL makeRequest subreddit limit sinceTimestamp =
     makeRequest (subredditEndpoint baseURL subreddit limit sinceTimestamp)"
    by (simp add: GetSubredditPosts_def split: sum.splits)
qed

lemma Itoa_examples: "Itoa 25 = ''25''" "Itoa 1699999000 = ''1699999000''"
  by code_simp+

lemma QueryEscape_example: "QueryEscape ''go lang'' = ''go+lang''"
  by code_simp

theorem GetSubredditPosts_query_witness:
  "subredditEndpoint ''http://localhost:8080'' ''go lang'' 25 1699999000 =
     ''http://localhost:8080/subreddit?limit=25&since_timestamp=1699999000&subreddit=go+lang'' \<and>
   subredditEndpoint ''http://localhost:8080'' ''go lang'' 0 (- 1) =
     ''http://localhost:8080/subreddit?subreddit=go+lang''"
  using GetSubredditPosts_query [of "''go lang''" 25 1699999000 "''http://localhost:8080''"]
    GetSubredditPosts_query [of "''go lang''" 0 "- 1" "''http://localhost:8080''"]
  by (simp add: Itoa_examples QueryEscape_example)

section \<open>Properties of the orchestrator\<close>

subsection \<open>Metadata writes\<close>

lemma storedTime_bounds: "storedTime t \<le> t \<and> t < storedTime t + 1000000"
proof -
  have "t = (t div 1000000) * 1000000 + t mod 1000000" by simp
  moreover have "0 \<le> t mod 1000000" and "t mod 1000000 < 1000000" by simp_all
  ultimately show ?thesis unfolding storedTime_def by linarith
qed

lemma UpsertSubredditMetadata_fail:
  "UpsertSubredditMetadata (Some e) clk db metadata = (Some e, db, tick clk)"
  by (simp add: UpsertSubredditMetadata_def)

lemma UpsertSubredditMetadata_ok:
  "UpsertSubredditMetadata None clk db metadata =
     (None,
      db\<lparr>subreddit_metadata :=
           UpdateOne (\<lambda>d. SubredditName d = SubredditName metadata)
             (\<lambda>d. d\<lparr>SubredditName := SubredditName metadata,
                     LastScrapedAt := storedTime (LastScrapedAt metadata),
                     MonitorConfig := MonitorConfig metadata,
                     md_UpdatedAt := storedTime (clk 0)\<rparr>)
             \<lparr>SubredditName = SubredditName metadata,
              LastScrapedAt = storedTime (LastScrapedAt metadata),
              MonitorConfig = MonitorConfig metadata,
              md_CreatedAt = storedTime (clk 0),
              md_UpdatedAt = storedTime (clk 0)\<rparr>
             (subreddit_metadata db)\<rparr>,
      tick clk)"
  by (simp add: UpsertSubredditMetadata_def Let_def)

lemma UpsertSubredditMetadata_stored:
  assumes "UpsertSubredditMetadata None clk db metadata = (r, db', clk')"
  shows "r = None \<and> clk' = tick clk \<and>
     FindOne (\<lambda>d. SubredditName d = SubredditName metadata) (subreddit_metadata db') =
       Some \<lparr>SubredditName = SubredditName metadata,
             LastScrapedAt = storedTime (LastScrapedAt metadata),
             MonitorConfig = MonitorConfig metadata,
             md_CreatedAt =
               (case FindOne (\<lambda>d. SubredditName d = SubredditName metadata) (subreddit_metadata db) of
                  None \<Rightarrow> storedTime (clk 0) | Some old \<Rightarrow> md_CreatedAt old),
             md_UpdatedAt = storedTime (clk 0)\<rparr>"
proof -
  from assms have r: "r = None" and clk': "clk' = tick clk" and db': "db' = fst (snd (UpsertSubredditMetadata None clk db metadata))"
    by (simp_all add: UpsertSubredditMetadata_ok)
  show ?thesis
    unfolding FindOne_def db' r clk' UpsertSubredditMetadata_ok
    by (simp add: find_UpdateOne_same [where key = SubredditName] split: option.splits)
qed

lemma UpsertSubredditMetadata_others:
  assumes "UpsertSubredditMetadata err clk db metadata = (r, db', clk')"
    and "name \<noteq> SubredditName metadata"
  shows "FindOne (\<lambda>d. SubredditName d = name) (subreddit_metadata db') =
         FindOne (\<lambda>d. SubredditName d = name) (subreddit_metadata db)"
proof (cases err)
  case None
  with assms(1) have db': "db' = fst (snd (UpsertSubredditMetadata None clk db metadata))"
    by simp
  show ?thesis
    unfolding FindOne_def db' UpsertSubredditMetadata_ok using assms(2)
    by (simp add: find_UpdateOne_other [where key = SubredditName])
next
  case (Some e)
  then show ?thesis
    using assms(1) by (auto simp: UpsertSubredditMetadata_def)
qed

lemma UpsertPosts_metadata:
  "UpsertPosts errs clk db posts = (r, db', clk') \<Longrightarrow> subreddit_metadata db' = subreddit_metadata db"
  by (auto simp: UpsertPosts_def Let_def split: if_splits prod.splits)

text \<open>What a run is, once its parameters are resolved.\<close>

lemma monitorSubreddit_resolved:
  assumes "params ''subreddit'' = Some (StringParam name)" and "name \<noteq> []"
    and "resolveSince (getMetadataErr outcomes) db name params = Inr since"
  shows "monitorSubreddit tm outcomes params db clk =
         scrape tm outcomes db clk name (resolveLimit tm params) since"
  using assms by (simp add: monitorSubreddit_def)

text \<open>
  Whatever its outcome, a run leaves the metadata collection as it was or ends with one
  metadata write, for its own source and with its own start time.
\<close>

lemma scrape_metadata:
  assumes "scrape tm outcomes db clk name limit since = (r, db', clk')"
  shows "(r \<noteq> None \<and> subreddit_metadata db' = subreddit_metadata db) \<or>
         (\<exists>db2 clkw clk5.
            subreddit_metadata db2 = subreddit_metadata db \<and>
            updateMetadata (upsertMetadataErr outcomes) clkw db2 name limit (clk 0) = (r, db', clk5))"
proof -
  obtain res clk2 where fetch: "client tm name limit since (tick clk) = (res, clk2)"
    by (cases "client tm name limit since (tick clk)")
  show ?thesis
  proof (cases res)
    case (Inl e)
    then show ?thesis using assms fetch by (auto simp: scrape_def)
  next
    case (Inr posts)
    show ?thesis
    proof (cases "posts = []")
      case True
      then show ?thesis using assms fetch Inr by (auto simp: scrape_def Let_def)
    next
      case False
      obtain processed clk3 where p: "ProcessSubredditPosts clk2 posts name = (processed, clk3)"
        by (cases "ProcessSubredditPosts clk2 posts name")
      obtain r2 db2 clk4 where u: "UpsertPosts (upsertPostErrs outcomes) clk3 db processed = (r2, db2, clk4)"
        by (cases "UpsertPosts (upsertPostErrs outcomes) clk3 db processed")
      obtain r3 db3 clk5 where m:
        "updateMetadata (upsertMetadataErr outcomes) clk4 db2 name limit (clk 0) = (r3, db3, clk5)"
        by (cases "updateMetadata (upsertMetadataErr outcomes) clk4 db2 name limit (clk 0)")
      have same: "subreddit_metadata db2 = subreddit_metadata db"
        using u by (rule UpsertPosts_metadata)
      show ?thesis
      proof (cases r2)
        case None
        then have "db' = db3 \<and> r = r3"
          using assms fetch Inr False p u m by (cases r3) (auto simp: scrape_def Let_def)
        then show ?thesis using same m by blast
      next
        case (Some e)
        then have "db' = db2 \<and> r = Some e"
          using assms fetch Inr False p u by (auto simp: scrape_def Let_def)
        then show ?thesis using same by simp
      qed
    qed
  qed
qed

lemma monitorSubreddit_metadata:
  assumes "monitorSubreddit tm outcomes params db clk = (r, db', clk')"
  shows "(r \<noteq> None \<and> subreddit_metadata db' = subreddit_metadata db) \<or>
         (\<exists>name db2 clkw clk5.
            params ''subreddit'' = Some (StringParam name) \<and>
            subreddit_metadata db2 = subreddit_metadata db \<and>
            updateMetadata (upsertMetadataErr outcomes) clkw db2 name (resolveLimit tm params) (clk 0) =
              (r, db', clk5))"
proof (cases "params ''subreddit''")
  case None
  then show ?thesis using assms by (auto simp: monitorSubreddit_def)
next
  case (Some p)
  show ?thesis
  proof (cases p)
    case OtherParam
    then show ?thesis using assms Some by (auto simp: monitorSubreddit_def)
  next
    case (StringParam name)
    show ?thesis
    proof (cases "name = [] \<or> isl (resolveSince (getMetadataErr outcomes) db name params)")
      case True
      then show ?thesis
        using assms Some StringParam
        by (auto simp: monitorSubreddit_def Let_def split: sum.splits if_splits)
    next
      case False
      then obtain since where "resolveSince (getMetadataErr outcomes) db name params = Inr since"
        by (cases "resolveSince (getMetadataErr outcomes) db name params") auto
      then have "scrape tm outcomes db clk name (resolveLimit tm params) since = (r, db', clk')"
        using assms Some StringParam False by (simp add: monitorSubreddit_def)
      from scrape_metadata [OF this] show ?thesis
        using Some StringParam by blast
    qed
  qed
qed

text \<open>The metadata document a successful write leaves for the source of a run.\<close>

lemma updateMetadata_stored:
  assumes "updateMetadata err clkw db2 name limit scrapedAt = (None, db', clk5)"
  shows "FindOne (\<lambda>d. SubredditName d = name) (subreddit_metadata db') =
       Some \<lparr>SubredditName = name,
             LastScrapedAt = storedTime scrapedAt,
             MonitorConfig = \<lparr>Enabled = True, MaxPosts = limit\<rparr>,
             md_CreatedAt =
               (case FindOne (\<lambda>d. SubredditName d = name) (subreddit_metadata db2) of
                  None \<Rightarrow> storedTime (clkw 0) | Some old \<Rightarrow> md_CreatedAt old),
             md_UpdatedAt = storedTime (clkw 0)\<rparr>"
proof -
  have ok: "err = None"
    using assms by (cases err) (simp_all add: updateMetadata_def UpsertSubredditMetadata_fail)
  show ?thesis
    using UpsertSubredditMetadata_stored [OF assms [unfolded updateMetadata_def ok]]
    by simp
qed

subsection \<open>Concrete runs\<close>

text \<open>
  A clock that starts a little after a whole millisecond and gives readings 2 ms apart;
  the scheduled parameters of a config for the source golang with the cap 25; clients whose
  fetch takes five readings of the clock and fails, finds nothing, or finds one post; and
  a database in which the source has been synced before.
\<close>

definition exampleClock :: clock where
  "exampleClock = (\<lambda>n. 1700000000000000123 + 2000000 * int n)"

definition golangParams :: TaskParams where
  "golangParams = scheduleParams (exampleConfig ''golang'' 1 True)"

definition quietDriver :: driverOutcomes where
  "quietDriver = \<lparr>getMetadataErr = None, upsertPostErrs = (\<lambda>k. None), upsertMetadataErr = None\<rparr>"

definition refusingDriver :: driverOutcomes where
  "refusingDriver = quietDriver\<lparr>upsertMetadataErr := Some (DriverError ''write refused'')\<rparr>"

definition failingManager :: SubredditTaskManager where
  "failingManager =
     \<lparr>DefaultLimit = 100, SubredditSchedule = ''@every 1h'',
      client = (\<lambda>subreddit limit sinceTimestamp clk.
                  (Inl (RequestError ''API error 503''), \<lambda>n. clk (n + 5)))\<rparr>"

definition idleManager :: SubredditTaskManager where
  "idleManager =
     \<lparr>DefaultLimit = 100, SubredditSchedule = ''@every 1h'',
      client = (\<lambda>subreddit limit sinceTimestamp clk. (Inr [], \<lambda>n. clk (n + 5)))\<rparr>"

definition busyManager :: SubredditTaskManager where
  "busyManager =
     \<lparr>DefaultLimit = 100, SubredditSchedule = ''@every 1h'',
      client = (\<lambda>subreddit limit sinceTimestamp clk.
                  (Inr [tabKeyPost\<lparr>ip_ID := ''t3_abc''\<rparr>], \<lambda>n. clk (n + 5)))\<rparr>"

definition syncedMetadata :: SubredditMetadata where
  "syncedMetadata =
     \<lparr>SubredditName = ''golang'', LastScrapedAt = 1699999000000000000,
      MonitorConfig = \<lparr>Enabled = False, MaxPosts = 10\<rparr>,
      md_CreatedAt = 1600000000000000000, md_UpdatedAt = 1699999000001000000\<rparr>"

definition syncedDatabase :: database where
  "syncedDatabase = emptyDatabase\<lparr>subreddit_metadata := [syncedMetadata]\<rparr>"

lemma golangParams_subreddit: "golangParams ''subreddit'' = Some (StringParam ''golang'')"
  by (simp add: golangParams_def scheduleParams_def exampleConfig_def)

lemma golangParams_since:
  "resolveSince (getMetadataErr quietDriver) syncedDatabase ''golang'' golangParams = Inr 1699999000"
  by code_simp

lemma golangParams_since_empty:
  "resolveSince (getMetadataErr quietDriver) emptyDatabase ''golang'' golangParams = Inr 0"
  "resolveSince (getMetadataErr refusingDriver) emptyDatabase ''golang'' golangParams = Inr 0"
  by code_simp+

lemma golangParams_limit: "resolveLimit tm golangParams = 25"
proof -
  have "Atoi ''25'' = Some 25" by code_simp
  moreover have "Itoa 25 = ''25''" by code_simp
  ultimately show ?thesis
    by (simp add: resolveLimit_def golangParams_def scheduleParams_def exampleConfig_def)
qed

lemma synced_stored: "GetSubredditMetadata None syncedDatabase ''golang'' = Inr (Some syncedMetadata)"
  by (simp add: GetSubredditMetadata_def FindOne_def syncedDatabase_def syncedMetadata_def)

subsection \<open>Outcomes of a run\<close>

text \<open>
  C1: when the run has resolved its parameters and the fetch, called with them, returns an
  error, the run ends with that error and the database is the one it started with: no
  document of the metadata collection is written, and the stored watermark of every source
  is what it was.
\<close>

theorem monitorSubreddit_fetch_failure:
  assumes "params ''subreddit'' = Some (StringParam name)" and "name \<noteq> []"
    and "resolveSince (getMetadataErr outcomes) db name params = Inr since"
    and "client tm name (resolveLimit tm params) since (tick clk) = (Inl err, clk2)"
  shows "monitorSubreddit tm outcomes params db clk = (Some err, db, clk2) \<and>
         GetSubredditMetadata None (fst (snd (monitorSubreddit tm outcomes params db clk))) source =
           GetSubredditMetadata None db source"
proof -
  have "monitorSubreddit tm outcomes params db clk = (Some err, db, clk2)"
    using assms by (simp add: monitorSubreddit_resolved scrape_def)
  then show ?thesis by simp
qed

theorem monitorSubreddit_fetch_failure_witness:
  "golangParams ''subreddit'' = Some (StringParam ''golang'') \<and>
   resolveSince (getMetadataErr quietDriver) syncedDatabase ''golang'' golangParams = Inr 1699999000 \<and>
   fst (client failingManager ''golang'' (resolveLimit failingManager golangParams) 1699999000
          (tick exampleClock)) = Inl (RequestError ''API error 503'') \<and>
   fst (monitorSubreddit failingManager quietDriver golangParams syncedDatabase exampleClock) =
     Some (RequestError ''API error 503'') \<and>
   fst (snd (monitorSubreddit failingManager quietDriver golangParams syncedDatabase exampleClock)) =
     syncedDatabase \<and>
   GetSubredditMetadata None
     (fst (snd (monitorSubreddit failingManager quietDriver golangParams syncedDatabase exampleClock)))
     ''golang'' = Inr (Some syncedMetadata)"
proof -
  have name: "''golang'' \<noteq> []" by simp
  have fetch: "client failingManager ''golang'' (resolveLimit failingManager golangParams) 1699999000
      (tick exampleClock) = (Inl (RequestError ''API error 503''), \<lambda>n. tick exampleClock (n + 5))"
    by (simp add: failingManager_def)
  show ?thesis
    using monitorSubreddit_fetch_failure [OF golangParams_subreddit name golangParams_since fetch,
        of "''golang''"]
      golangParams_subreddit golangParams_since fetch synced_stored
    by simp
qed

text \<open>
  C3, as stated: a run whose fetch returns no item is successful and writes the watermark,
  equal to its start time. When the store refuses the metadata write, the run with an empty
  fetch fails with the store's error and the source has no watermark afterwards; and when
  the write succeeds, the stored watermark of a run started at 1700000000.000000123 s is
  1700000000.000 s, the start time cut to the millisecond.
\<close>

theorem monitorSubreddit_empty_fetch_write_refused:
  "fst (client idleManager ''golang'' 25 0 (tick exampleClock)) = Inr [] \<and>
   fst (monitorSubreddit idleManager refusingDriver golangParams emptyDatabase exampleClock) =
     Some (DriverError ''write refused'') \<and>
   GetSubredditMetadata None
     (fst (snd (monitorSubreddit idleManager refusingDriver golangParams emptyDatabase exampleClock)))
     ''golang'' = Inr None \<and>
   exampleClock 0 = 1700000000000000123 \<and>
   map_sum id (map_option LastScrapedAt)
     (GetSubredditMetadata None
        (fst (snd (monitorSubreddit idleManager quietDriver golangParams emptyDatabase exampleClock)))
        ''golang'') = Inr (Some 1700000000000000000)"
  by code_simp

text \<open>
  C3, amended: a run whose fetch returns no item goes straight to the metadata write. When
  the store accepts the write, the run succeeds and the source's stored \<open>LastScrapedAt\<close>
  is the run's start time to the millisecond: the clock reading taken as
  \<open>scrapeStartTime\<close> before the fetch, not a reading of the clock as it stands after
  the fetch, which is what the write itself is stamped with. A source without metadata
  gets a new document with that watermark. When the store refuses the write, the run
  fails with the store's error and the database is the one it started with.
\<close>

theorem monitorSubreddit_empty_fetch:
  assumes "params ''subreddit'' = Some (StringParam name)" and "name \<noteq> []"
    and "resolveSince (getMetadataErr outcomes) db name params = Inr since"
    and "client tm name (resolveLimit tm params) since (tick clk) = (Inr [], clk2)"
  shows "(upsertMetadataErr outcomes = None \<longrightarrow>
            fst (monitorSubreddit tm outcomes params db clk) = None \<and>
            GetSubredditMetadata None (fst (snd (monitorSubreddit tm outcomes params db clk))) name =
              Inr (Some \<lparr>SubredditName = name,
                         LastScrapedAt = storedTime (clk 0),
                         MonitorConfig = \<lparr>Enabled = True, MaxPosts = resolveLimit tm params\<rparr>,
                         md_CreatedAt =
                           (case FindOne (\<lambda>d. SubredditName d = name) (subreddit_metadata db) of
                              None \<Rightarrow> storedTime (clk2 0) | Some old \<Rightarrow> md_CreatedAt old),
                         md_UpdatedAt = storedTime (clk2 0)\<rparr>)) \<and>
         (\<forall>e. upsertMetadataErr outcomes = Some e \<longrightarrow>
            monitorSubreddit tm outcomes params db clk = (Some e, db, tick clk2)) \<and>
         storedTime (clk 0) \<le> clk 0 \<and> clk 0 < storedTime (clk 0) + 1000000"
proof (intro conjI impI allI)
  have run: "monitorSubreddit tm outcomes params db clk =
      updateMetadata (upsertMetadataErr outcomes) clk2 db name (resolveLimit tm params) (clk 0)"
    using assms by (simp add: monitorSubreddit_resolved scrape_def)
  {
    assume ok: "upsertMetadataErr outcomes = None"
    obtain r db' clk' where upd:
      "updateMetadata None clk2 db name (resolveLimit tm params) (clk 0) = (r, db', clk')"
      by (cases "updateMetadata None clk2 db name (resolveLimit tm params) (clk 0)")
    then have r: "r = None"
      using UpsertSubredditMetadata_stored [of clk2 db _ r db' clk'] by (simp add: updateMetadata_def)
    show "fst (monitorSubreddit tm outcomes params db clk) = None"
      by (simp add: run ok upd r)
    show "GetSubredditMetadata None (fst (snd (monitorSubreddit tm outcomes params db clk))) name =
              Inr (Some \<lparr>SubredditName = name,
                         LastScrapedAt = storedTime (clk 0),
                         MonitorConfig = \<lparr>Enabled = True, MaxPosts = resolveLimit tm params\<rparr>,
                         md_CreatedAt =
                           (case FindOne (\<lambda>d. SubredditName d = name) (subreddit_metadata db) of
                              None \<Rightarrow> storedTime (clk2 0) | Some old \<Rightarrow> md_CreatedAt old),
                         md_UpdatedAt = storedTime (clk2 0)\<rparr>)"
      using updateMetadata_stored [OF upd [unfolded r]]
      by (simp add: run ok upd GetSubredditMetadata_def)
  }
  {
    fix e
    assume "upsertMetadataErr outcomes = Some e"
    then show "monitorSubreddit tm outcomes params db clk = (Some e, db, tick clk2)"
      by (simp add: run updateMetadata_def UpsertSubredditMetadata_fail)
  }
  show "storedTime (clk 0) \<le> clk 0" and "clk 0 < storedTime (clk 0) + 1000000"
    using storedTime_bounds [of "clk 0"] by simp_all
qed

theorem monitorSubreddit_empty_fetch_witness:
  "golangParams ''subreddit'' = Some (StringParam ''golang'') \<and>
   resolveSince (getMetadataErr quietDriver) emptyDatabase ''golang'' golangParams = Inr 0 \<and>
   fst (client idleManager ''golang'' (resolveLimit idleManager golangParams) 0 (tick exampleClock)) =
     Inr [] \<and>
   upsertMetadataErr quietDriver = None \<and>
   upsertMetadataErr refusingDriver = Some (DriverError ''write refused'') \<and>
   GetSubredditMetadata None emptyDatabase ''golang'' = Inr None \<and>
   fst (monitorSubreddit idleManager quietDriver golangParams emptyDatabase exampleClock) = None \<and>
   GetSubredditMetadata None
     (fst (snd (monitorSubreddit idleManager quietDriver golangParams emptyDatabase exampleClock)))
     ''golang'' =
     Inr (Some \<lparr>SubredditName = ''golang'', LastScrapedAt = 1700000000000000000,
                MonitorConfig = \<lparr>Enabled = True, MaxPosts = 25\<rparr>,
                md_CreatedAt = 1700000000012000000, md_UpdatedAt = 1700000000012000000\<rparr>) \<and>
   fst (monitorSubreddit idleManager refusingDriver golangParams emptyDatabase exampleClock) =
     Some (DriverError ''write refused'') \<and>
   fst (snd (monitorSubreddit idleManager refusingDriver golangParams emptyDatabase exampleClock)) =
     emptyDatabase"
proof -
  have name: "''golang'' \<noteq> []" by simp
  have fetch: "client idleManager ''golang'' (resolveLimit idleManager golangParams) 0 (tick exampleClock) =
      (Inr [], \<lambda>n. tick exampleClock (n + 5))"
    by (simp add: idleManager_def)
  have wr: "upsertMetadataErr quietDriver = None"
    "upsertMetadataErr refusingDriver = Some (DriverError ''write refused'')"
    by (simp_all add: quietDriver_def refusingDriver_def)
  have before: "GetSubredditMetadata None emptyDatabase ''golang'' = Inr None"
    "FindOne (\<lambda>d. SubredditName d = ''golang'') (subreddit_metadata emptyDatabase) = None"
    by (simp_all add: GetSubredditMetadata_def FindOne_def emptyDatabase_def)
  have times: "storedTime (exampleClock 0) = 1700000000000000000"
    "storedTime (tick exampleClock 5) = 1700000000012000000"
    by (simp_all add: storedTime_def exampleClock_def tick_def)
  show ?thesis
    using
      monitorSubreddit_empty_fetch [OF golangParams_subreddit name golangParams_since_empty(1) fetch]
      monitorSubreddit_empty_fetch [OF golangParams_subreddit name golangParams_since_empty(2) fetch]
      golangParams_subreddit golangParams_since_empty(1) fetch wr before
    by (simp add: golangParams_limit times)
qed

text \<open>
  C10: after a run that succeeds, the metadata document of its source has
  \<open>monitor_config\<close> = (enabled: true, max_posts: the run's limit) whatever was stored
  before, its watermark is the run's start time as the store keeps it, and its
  \<open>created_at\<close> is that of the document that was there before the run, when there was
  one.
\<close>

theorem monitorSubreddit_overwrites_monitor_config:
  assumes "monitorSubreddit tm outcomes params db clk = (None, db', clk')"
    and "params ''subreddit'' = Some (StringParam name)"
  shows "\<exists>m. GetSubredditMetadata None db' name = Inr (Some m) \<and>
             MonitorConfig m = \<lparr>Enabled = True, MaxPosts = resolveLimit tm params\<rparr> \<and>
             LastScrapedAt m = storedTime (clk 0) \<and>
             (\<forall>old. GetSubredditMetadata None db name = Inr (Some old) \<longrightarrow>
                     md_CreatedAt m = md_CreatedAt old)"
proof -
  from monitorSubreddit_metadata [OF assms(1)] assms(2)
  obtain db2 clkw clk5 where same: "subreddit_metadata db2 = subreddit_metadata db"
    and upd: "updateMetadata (upsertMetadataErr outcomes) clkw db2 name (resolveLimit tm params) (clk 0) =
                (None, db', clk5)"
    by auto
  show ?thesis
    using updateMetadata_stored [OF upd]
    by (auto simp: GetSubredditMetadata_def same)
qed

lemma busy_run:
  "fst (monitorSubreddit busyManager quietDriver golangParams syncedDatabase exampleClock) = None"
  by code_simp

theorem monitorSubreddit_overwrites_monitor_config_witness:
  "fst (monitorSubreddit busyManager quietDriver golangParams syncedDatabase exampleClock) = None \<and>
   golangParams ''subreddit'' = Some (StringParam ''golang'') \<and>
   map_option MonitorConfig (FindOne (\<lambda>d. SubredditName d = ''golang'') (subreddit_metadata syncedDatabase)) =
     Some \<lparr>Enabled = False, MaxPosts = 10\<rparr> \<and>
   (\<exists>m. GetSubredditMetadata None
          (fst (snd (monitorSubreddit busyManager quietDriver golangParams syncedDatabase exampleClock)))
          ''golang'' = Inr (Some m) \<and>
        MonitorConfig m = \<lparr>Enabled = True, MaxPosts = 25\<rparr> \<and>
        LastScrapedAt m = 1700000000000000000 \<and>
        md_CreatedAt m = 1600000000000000000)"
proof -
  have run: "monitorSubreddit busyManager quietDriver golangParams syncedDatabase exampleClock =
      (None,
       fst (snd (monitorSubreddit busyManager quietDriver golangParams syncedDatabase exampleClock)),
       snd (snd (monitorSubreddit busyManager quietDriver golangParams syncedDatabase exampleClock)))"
    using busy_run by (simp add: prod_eq_iff)
  have before: "map_option MonitorConfig
      (FindOne (\<lambda>d. SubredditName d = ''golang'') (subreddit_metadata syncedDatabase)) =
     Some \<lparr>Enabled = False, MaxPosts = 10\<rparr>"
    by (simp add: FindOne_def syncedDatabase_def syncedMetadata_def)
  have start: "storedTime (exampleClock 0) = 1700000000000000000"
    by (simp add: storedTime_def exampleClock_def)
  show ?thesis
    using monitorSubreddit_overwrites_monitor_config [OF run golangParams_subreddit]
      busy_run golangParams_subreddit synced_stored before
    by (simp add: golangParams_limit start syncedMetadata_def)
qed

subsection \<open>The watermark across runs\<close>

text \<open>
  C6, as stated: across successful metadata upserts for one source the stored
  \<open>LastScrapedAt\<close> never decreases. Nothing compares the new value with the stored one:
  two successful updates for the same source, the second with a time one second earlier
  (a run that started earlier and finished later, or a clock set back), leave the earlier
  time stored.
\<close>

theorem updateMetadata_watermark_decreases:
  "fst (updateMetadata None (\<lambda>n. 1700000003000000000 + int n) emptyDatabase ''golang'' 25
          1700000002000000000) = None \<and>
   map LastScrapedAt (subreddit_metadata
     (fst (snd (updateMetadata None (\<lambda>n. 1700000003000000000 + int n) emptyDatabase ''golang'' 25
                  1700000002000000000)))) = [1700000002000000000] \<and>
   fst (updateMetadata None (\<lambda>n. 1700000004000000000 + int n)
     (fst (snd (updateMetadata None (\<lambda>n. 1700000003000000000 + int n) emptyDatabase ''golang'' 25
                  1700000002000000000)))
     ''golang'' 25 1700000001000000000) = None \<and>
   map LastScrapedAt (subreddit_metadata
     (fst (snd (updateMetadata None (\<lambda>n. 1700000004000000000 + int n)
       (fst (snd (updateMetadata None (\<lambda>n. 1700000003000000000 + int n) emptyDatabase ''golang'' 25
                    1700000002000000000)))
       ''golang'' 25 1700000001000000000)))) = [1700000001000000000]"
  by (simp add: updateMetadata_def UpsertSubredditMetadata_def emptyDatabase_def storedTime_def)

text \<open>
  C6, amended. A successful metadata upsert stores the \<open>LastScrapedAt\<close> it is given, to
  the millisecond, whatever is stored for the source. Over a run, for a source with a
  stored watermark: a run for another source and a run that fails leave the document as
  it is, and a run for this source that succeeds leaves its own start time, to the
  millisecond, as the watermark. So the stored watermark does not decrease over a run
  unless the run is a successful one for this source whose start time is earlier than the
  stored watermark.
\<close>

theorem monitorSubreddit_watermark_monotone:
  assumes "monitorSubreddit tm outcomes params db clk = (r, db', clk')"
    and "GetSubredditMetadata None db source = Inr (Some before)"
  shows "map_option LastScrapedAt
           (FindOne (\<lambda>d. SubredditName d = SubredditName metadata)
              (subreddit_metadata (fst (snd (UpsertSubredditMetadata None wclk wdb metadata))))) =
           Some (storedTime (LastScrapedAt metadata)) \<and>
         (\<exists>after. GetSubredditMetadata None db' source = Inr (Some after) \<and>
            (params ''subreddit'' \<noteq> Some (StringParam source) \<longrightarrow> after = before) \<and>
            (r \<noteq> None \<longrightarrow> after = before) \<and>
            (r = None \<and> params ''subreddit'' = Some (StringParam source) \<longrightarrow>
               LastScrapedAt after = storedTime (clk 0)) \<and>
            (LastScrapedAt after = LastScrapedAt before \<or> LastScrapedAt after = storedTime (clk 0)) \<and>
            (LastScrapedAt before \<le> storedTime (clk 0) \<longrightarrow>
               LastScrapedAt before \<le> LastScrapedAt after))"
proof
  obtain wr wdb' wclk' where w: "UpsertSubredditMetadata None wclk wdb metadata = (wr, wdb', wclk')"
    by (cases "UpsertSubredditMetadata None wclk wdb metadata")
  show "map_option LastScrapedAt
           (FindOne (\<lambda>d. SubredditName d = SubredditName metadata)
              (subreddit_metadata (fst (snd (UpsertSubredditMetadata None wclk wdb metadata))))) =
           Some (storedTime (LastScrapedAt metadata))"
    using UpsertSubredditMetadata_stored [OF w] by (simp add: w)
next
  have stored: "FindOne (\<lambda>d. SubredditName d = source) (subreddit_metadata db) = Some before"
    using assms(2) by (simp add: GetSubredditMetadata_def)
  from monitorSubreddit_metadata [OF assms(1)]
  consider (same) "r \<noteq> None" "subreddit_metadata db' = subreddit_metadata db"
    | (written) name db2 clkw clk5 where
        "params ''subreddit'' = Some (StringParam name)"
        "subreddit_metadata db2 = subreddit_metadata db"
        "updateMetadata (upsertMetadataErr outcomes) clkw db2 name (resolveLimit tm params) (clk 0) =
           (r, db', clk5)"
    by blast
  then show "\<exists>after. GetSubredditMetadata None db' source = Inr (Some after) \<and>
            (params ''subreddit'' \<noteq> Some (StringParam source) \<longrightarrow> after = before) \<and>
            (r \<noteq> None \<longrightarrow> after = before) \<and>
            (r = None \<and> params ''subreddit'' = Some (StringParam source) \<longrightarrow>
               LastScrapedAt after = storedTime (clk 0)) \<and>
            (LastScrapedAt after = LastScrapedAt before \<or> LastScrapedAt after = storedTime (clk 0)) \<and>
            (LastScrapedAt before \<le> storedTime (clk 0) \<longrightarrow>
               LastScrapedAt before \<le> LastScrapedAt after)"
  proof cases
    case same
    then show ?thesis using stored by (auto simp: GetSubredditMetadata_def)
  next
    case written
    show ?thesis
    proof (cases "upsertMetadataErr outcomes")
      case (Some e)
      then have "db' = db2" and "r = Some e"
        using written(3) by (simp_all add: updateMetadata_def UpsertSubredditMetadata_fail)
      then show ?thesis
        using stored written(2) by (simp add: GetSubredditMetadata_def)
    next
      case None
      have r: "r = None"
        using UpsertSubredditMetadata_stored [OF written(3) [unfolded updateMetadata_def None]]
        by simp
      show ?thesis
      proof (cases "source = name")
        case True
        have "\<exists>after. FindOne (\<lambda>d. SubredditName d = source) (subreddit_metadata db') = Some after \<and>
            LastScrapedAt after = storedTime (clk 0)"
          using updateMetadata_stored [OF written(3) [unfolded r]] True by simp
        then show ?thesis
          using r True written(1) by (auto simp: GetSubredditMetadata_def)
      next
        case False
        have "FindOne (\<lambda>d. SubredditName d = source) (subreddit_metadata db') =
              FindOne (\<lambda>d. SubredditName d = source) (subreddit_metadata db2)"
          using UpsertSubredditMetadata_others [OF written(3) [unfolded updateMetadata_def], of source] False
          by simp
        then show ?thesis
          using stored written(1,2) False r by (simp add: GetSubredditMetadata_def)
      qed
    qed
  qed
qed

lemma idle_run:
  "fst (monitorSubreddit idleManager quietDriver golangParams syncedDatabase exampleClock) = None"
  by code_simp

theorem monitorSubreddit_watermark_monotone_witness:
  "GetSubredditMetadata None syncedDatabase ''golang'' = Inr (Some syncedMetadata) \<and>
   LastScrapedAt syncedMetadata = 1699999000000000000 \<and>
   golangParams ''subreddit'' = Some (StringParam ''golang'') \<and>
   fst (monitorSubreddit idleManager quietDriver golangParams syncedDatabase exampleClock) = None \<and>
   storedTime (exampleClock 0) = 1700000000000000000 \<and>
   map_option LastScrapedAt
     (FindOne (\<lambda>d. SubredditName d = ''golang'')
        (subreddit_metadata
           (fst (snd (UpsertSubredditMetadata None exampleClock syncedDatabase
                        (syncedMetadata\<lparr>LastScrapedAt := 1600000000000000000\<rparr>)))))) =
     Some 1600000000000000000 \<and>
   (\<exists>after. GetSubredditMetadata None
          (fst (snd (monitorSubreddit idleManager quietDriver golangParams syncedDatabase exampleClock)))
          ''golang'' = Inr (Some after) \<and>
        LastScrapedAt after = 1700000000000000000 \<and>
        LastScrapedAt syncedMetadata \<le> LastScrapedAt after)"
proof -
  have run: "monitorSubreddit idleManager quietDriver golangParams syncedDatabase exampleClock =
      (None,
       fst (snd (monitorSubreddit idleManager quietDriver golangParams syncedDatabase exampleClock)),
       snd (snd (monitorSubreddit idleManager quietDriver golangParams syncedDatabase exampleClock)))"
    using idle_run by (simp add: prod_eq_iff)
  have start: "storedTime (exampleClock 0) = 1700000000000000000"
    "storedTime 1600000000000000000 = 1600000000000000000"
    by (simp_all add: storedTime_def exampleClock_def)
  have before: "LastScrapedAt syncedMetadata = 1699999000000000000"
    "SubredditName syncedMetadata = ''golang''"
    by (simp_all add: syncedMetadata_def)
  show ?thesis
    using monitorSubreddit_watermark_monotone [OF run synced_stored,
        where metadata = "syncedMetadata\<lparr>LastScrapedAt := 1600000000000000000\<rparr>"
          and wclk = exampleClock and wdb = syncedDatabase]
      synced_stored golangParams_subreddit idle_run
    by (auto simp: start before)
qed

subsection \<open>Resolving the parameters of a run\<close>

text \<open>The effective limit in the words of the specification, for comparison.\<close>

definition spec_effectiveLimit :: "int \<Rightarrow> int \<Rightarrow> int \<Rightarrow> int" where
  "spec_effectiveLimit override configuredCap processDefault =
     (if override > 0 then override
      else if configuredCap > 0 then configuredCap
      else processDefault)"

definition echoManager :: SubredditTaskManager where
  "echoManager =
     \<lparr>DefaultLimit = 100, SubredditSchedule = ''@every 1h'',
      client = (\<lambda>subreddit limit sinceTimestamp clk. (Inl (RequestError (Itoa limit)), clk))\<rparr>"

definition cappedConfig :: SubredditConfig where
  "cappedConfig = (exampleConfig ''golang'' 1 True)\<lparr>cfg_MaxPosts := 50\<rparr>"

definition manualRunParams :: TaskParams where
  "manualRunParams = [''subreddit'' \<mapsto> StringParam ''golang'', ''limit'' \<mapsto> StringParam ''0'']"

text \<open>
  C7, as stated: without a positive override the limit is the source's configured cap. A
  run started with the limit parameter \<open>0\<close> for a source whose config has the cap 50,
  under a process default of 100, fetches with the limit 100 (the client here answers with
  the limit it was called with): the run never reads the config collection.
\<close>

theorem resolveLimit_ignores_configured_cap:
  "cfg_SubredditName cappedConfig = ''golang'' \<and> cfg_MaxPosts cappedConfig = 50 \<and>
   spec_effectiveLimit 0 (cfg_MaxPosts cappedConfig) (DefaultLimit echoManager) = 50 \<and>
   resolveLimit echoManager manualRunParams = 100 \<and>
   fst (monitorSubreddit echoManager quietDriver manualRunParams
          (emptyDatabase\<lparr>subreddit_config := [cappedConfig]\<rparr>) (\<lambda>n. 1700000000000000000 + int n)) =
     Some (RequestError ''100'')"
  by code_simp

lemma Itoa_not_Nil: "Itoa n \<noteq> []"
  by (simp add: Itoa_def decimalDigits_not_Nil)

lemma resolveLimit_parsed:
  assumes "params ''limit'' = Some (StringParam s)" and "Atoi s = Some n"
  shows "resolveLimit tm params = (if n > 0 then n else DefaultLimit tm)"
proof -
  have "s \<noteq> []" using assms(2) by (auto simp: Atoi_def ParseInt_def)
  then show ?thesis using assms by (simp add: resolveLimit_def)
qed

lemma resolveLimit_decimal:
  assumes "- (2 ^ 63) \<le> n" and "n < 2 ^ 63" and "params ''limit'' = Some (StringParam (Itoa n))"
  shows "resolveLimit tm params = (if n > 0 then n else DefaultLimit tm)"
  using assms by (simp add: resolveLimit_def Atoi_def ParseInt_Itoa Itoa_not_Nil)

lemma resolveLimit_default:
  assumes "params ''limit'' = None \<or> params ''limit'' = Some OtherParam \<or>
           (\<exists>s. params ''limit'' = Some (StringParam s) \<and> Atoi s = None)"
  shows "resolveLimit tm params = DefaultLimit tm"
  using assms by (auto simp: resolveLimit_def)

lemma manualTimestamp_parsed:
  assumes "params ''since_timestamp'' = Some (StringParam s)" and "ParseInt s = Some t"
  shows "manualTimestamp params = (if t > 0 then Some t else None)"
proof -
  have "s \<noteq> []" using assms(2) by (auto simp: ParseInt_def)
  then show ?thesis using assms by (simp add: manualTimestamp_def)
qed

lemma manualTimestamp_decimal:
  assumes "- (2 ^ 63) \<le> t" and "t < 2 ^ 63" and "params ''since_timestamp'' = Some (StringParam (Itoa t))"
  shows "manualTimestamp params = (if t > 0 then Some t else None)"
  using assms by (simp add: manualTimestamp_def ParseInt_Itoa Itoa_not_Nil)

lemma manualTimestamp_none:
  assumes "params ''since_timestamp'' = None \<or> params ''since_timestamp'' = Some OtherParam \<or>
           (\<exists>s. params ''since_timestamp'' = Some (StringParam s) \<and> ParseInt s = None)"
  shows "manualTimestamp params = None"
  using assms by (auto simp: manualTimestamp_def)

lemma resolveSince_stored:
  assumes "manualTimestamp params = None"
  shows "resolveSince None db name params =
        Inr (case FindOne (\<lambda>d. SubredditName d = name) (subreddit_metadata db) of
               None \<Rightarrow> 0
             | Some m \<Rightarrow> if IsZero (LastScrapedAt m) then 0 else Unix (LastScrapedAt m))"
  using assms by (simp add: resolveSince_def GetSubredditMetadata_def split: option.splits)

text \<open>
  C7, amended. The limit of a run is its \<open>limit\<close> parameter when that is the decimal
  text of a positive integer, and the process default otherwise (a parameter that is
  missing, not a string, not a number, or not positive). The scheduler passes the source's
  configured cap as that parameter, so a scheduled run uses the cap when it is positive
  and the process default otherwise; no run ever falls back from an explicit parameter to
  the configured cap. The timestamp given to the fetch is the \<open>since_timestamp\<close>
  parameter when that is the decimal text of a positive integer, in which case the stored
  metadata is not read; otherwise (as in every scheduled run) it is the stored
  \<open>LastScrapedAt\<close> in Unix seconds when a document is stored and its time is not the
  zero time, and 0 otherwise, which the client leaves out of the query. The fetch of the
  run is called with exactly these two values. A text that \<open>strconv\<close> reads as a number
  counts as that number, however it is written (with a sign, with leading zeros).
\<close>

theorem monitorSubreddit_resolves_parameters:
  "(- (2 ^ 63) \<le> n \<and> n < 2 ^ 63 \<and> params ''limit'' = Some (StringParam (Itoa n)) \<longrightarrow>
      resolveLimit tm params = (if n > 0 then n else DefaultLimit tm)) \<and>
   (params ''limit'' = None \<or> params ''limit'' = Some OtherParam \<or>
      (\<exists>s. params ''limit'' = Some (StringParam s) \<and> Atoi s = None) \<longrightarrow>
      resolveLimit tm params = DefaultLimit tm) \<and>
   (- (2 ^ 63) \<le> cfg_MaxPosts config \<and> cfg_MaxPosts config < 2 ^ 63 \<longrightarrow>
      resolveLimit tm (scheduleParams config) =
        (if cfg_MaxPosts config > 0 then cfg_MaxPosts config else DefaultLimit tm)) \<and>
   (0 < t \<and> t < 2 ^ 63 \<and> params ''since_timestamp'' = Some (StringParam (Itoa t)) \<longrightarrow>
      resolveSince err db name params = Inr t) \<and>
   ((- (2 ^ 63) \<le> t \<and> t \<le> 0 \<and> params ''since_timestamp'' = Some (StringParam (Itoa t))) \<or>
    params ''since_timestamp'' = None \<or> params ''since_timestamp'' = Some OtherParam \<or>
    (\<exists>s. params ''since_timestamp'' = Some (StringParam s) \<and> ParseInt s = None) \<or>
    params = scheduleParams config \<longrightarrow>
      resolveSince None db name params =
        Inr (case FindOne (\<lambda>d. SubredditName d = name) (subreddit_metadata db) of
               None \<Rightarrow> 0
             | Some m \<Rightarrow> if IsZero (LastScrapedAt m) then 0 else Unix (LastScrapedAt m))) \<and>
   map_of (subredditQuery name limit 0) ''since_timestamp'' = None \<and>
   (params ''subreddit'' = Some (StringParam name) \<and> name \<noteq> [] \<and>
    resolveSince (getMetadataErr outcomes) db name params = Inr since \<longrightarrow>
      monitorSubreddit tm outcomes params db clk =
        scrape tm outcomes db clk name (resolveLimit tm params) since \<and>
      (client tm name (resolveLimit tm params) since (tick clk) =
       client tm' name (resolveLimit tm params) since (tick clk) \<longrightarrow>
         scrape tm outcomes db clk name (resolveLimit tm params) since =
         scrape tm' outcomes db clk name (resolveLimit tm params) since)) \<and>
   (params ''limit'' = Some (StringParam limitStr) \<and> Atoi limitStr = Some parsed \<longrightarrow>
      resolveLimit tm params = (if parsed > 0 then parsed else DefaultLimit tm)) \<and>
   (params ''since_timestamp'' = Some (StringParam tsStr) \<and> ParseInt tsStr = Some ts \<and> 0 < ts \<longrightarrow>
      resolveSince err db name params = Inr ts) \<and>
   (params ''since_timestamp'' = Some (StringParam tsStr) \<and> ParseInt tsStr = Some ts \<and> ts \<le> 0 \<longrightarrow>
      resolveSince None db name params =
        Inr (case FindOne (\<lambda>d. SubredditName d = name) (subreddit_metadata db) of
               None \<Rightarrow> 0
             | Some m \<Rightarrow> if IsZero (LastScrapedAt m) then 0 else Unix (LastScrapedAt m)))"
proof (intro conjI impI)
  assume "- (2 ^ 63) \<le> n \<and> n < 2 ^ 63 \<and> params ''limit'' = Some (StringParam (Itoa n))"
  then show "resolveLimit tm params = (if n > 0 then n else DefaultLimit tm)"
    using resolveLimit_decimal [of n params tm] by blast
next
  assume "params ''limit'' = None \<or> params ''limit'' = Some OtherParam \<or>
      (\<exists>s. params ''limit'' = Some (StringParam s) \<and> Atoi s = None)"
  then show "resolveLimit tm params = DefaultLimit tm"
    by (rule resolveLimit_default)
next
  assume "- (2 ^ 63) \<le> cfg_MaxPosts config \<and> cfg_MaxPosts config < 2 ^ 63"
  then show "resolveLimit tm (scheduleParams config) =
        (if cfg_MaxPosts config > 0 then cfg_MaxPosts config else DefaultLimit tm)"
    using resolveLimit_decimal [of "cfg_MaxPosts config" "scheduleParams config" tm]
    by (simp add: scheduleParams_def)
next
  assume "0 < t \<and> t < 2 ^ 63 \<and> params ''since_timestamp'' = Some (StringParam (Itoa t))"
  then have "manualTimestamp params = Some t"
    using manualTimestamp_decimal [of t params] by simp
  then show "resolveSince err db name params = Inr t"
    by (simp add: resolveSince_def)
next
  assume "(- (2 ^ 63) \<le> t \<and> t \<le> 0 \<and> params ''since_timestamp'' = Some (StringParam (Itoa t))) \<or>
    params ''since_timestamp'' = None \<or> params ''since_timestamp'' = Some OtherParam \<or>
    (\<exists>s. params ''since_timestamp'' = Some (StringParam s) \<and> ParseInt s = None) \<or>
    params = scheduleParams config"
  then consider
      (decimal) "- (2 ^ 63) \<le> t \<and> t \<le> 0 \<and> params ''since_timestamp'' = Some (StringParam (Itoa t))"
    | (none) "params ''since_timestamp'' = None \<or> params ''since_timestamp'' = Some OtherParam \<or>
        (\<exists>s. params ''since_timestamp'' = Some (StringParam s) \<and> ParseInt s = None)"
    | (scheduled) "params = scheduleParams config"
    by blast
  then have "manualTimestamp params = None"
  proof cases
    case decimal
    then show ?thesis using manualTimestamp_decimal [of t params] by simp
  next
    case none
    then show ?thesis by (rule manualTimestamp_none)
  next
    case scheduled
    then show ?thesis by (simp add: manualTimestamp_def scheduleParams_def)
  qed
  then show "resolveSince None db name params =
        Inr (case FindOne (\<lambda>d. SubredditName d = name) (subreddit_metadata db) of
               None \<Rightarrow> 0
             | Some m \<Rightarrow> if IsZero (LastScrapedAt m) then 0 else Unix (LastScrapedAt m))"
    by (rule resolveSince_stored)
next
  show "map_of (subredditQuery name limit 0) ''since_timestamp'' = None"
    by (simp add: subredditQuery_eq)
next
  assume "params ''subreddit'' = Some (StringParam name) \<and> name \<noteq> [] \<and>
    resolveSince (getMetadataErr outcomes) db name params = Inr since"
  then show "monitorSubreddit tm outcomes params db clk =
        scrape tm outcomes db clk name (resolveLimit tm params) since"
    by (simp add: monitorSubreddit_resolved)
next
  assume "client tm name (resolveLimit tm params) since (tick clk) =
       client tm' name (resolveLimit tm params) since (tick clk)"
  then show "scrape tm outcomes db clk name (resolveLimit tm params) since =
         scrape tm' outcomes db clk name (resolveLimit tm params) since"
    by (simp add: scrape_def)
next
  assume "params ''limit'' = Some (StringParam limitStr) \<and> Atoi limitStr = Some parsed"
  then show "resolveLimit tm params = (if parsed > 0 then parsed else DefaultLimit tm)"
    using resolveLimit_parsed [of params limitStr parsed tm] by blast
next
  assume "params ''since_timestamp'' = Some (StringParam tsStr) \<and> ParseInt tsStr = Some ts \<and> 0 < ts"
  then have "manualTimestamp params = Some ts"
    using manualTimestamp_parsed [of params tsStr ts] by simp
  then show "resolveSince err db name params = Inr ts"
    by (simp add: resolveSince_def)
next
  assume "params ''since_timestamp'' = Some (StringParam tsStr) \<and> ParseInt tsStr = Some ts \<and> ts \<le> 0"
  then have "manualTimestamp params = None"
    using manualTimestamp_parsed [of params tsStr ts] by simp
  then show "resolveSince None db name params =
        Inr (case FindOne (\<lambda>d. SubredditName d = name) (subreddit_metadata db) of
               None \<Rightarrow> 0
             | Some m \<Rightarrow> if IsZero (LastScrapedAt m) then 0 else Unix (LastScrapedAt m))"
    by (rule resolveSince_stored)
qed

definition deafDriver :: driverOutcomes where
  "deafDriver = quietDriver\<lparr>getMetadataErr := Some (DriverError ''no connection'')\<rparr>"

definition timedParams :: TaskParams where
  "timedParams =
     [''subreddit'' \<mapsto> StringParam ''golang'', ''since_timestamp'' \<mapsto> StringParam (Itoa 1699000000)]"

definition paddedParams :: TaskParams where
  "paddedParams =
     [''subreddit'' \<mapsto> StringParam ''golang'', ''limit'' \<mapsto> StringParam ''007'',
      ''since_timestamp'' \<mapsto> StringParam ''+1699000000'']"

lemma padded_numerals: "Atoi ''007'' = Some 7" "ParseInt ''+1699000000'' = Some 1699000000"
  by code_simp+

theorem monitorSubreddit_resolves_parameters_witness:
  "resolveLimit echoManager (scheduleParams cappedConfig) = 50 \<and>
   resolveSince None syncedDatabase ''golang'' (scheduleParams cappedConfig) = Inr 1699999000 \<and>
   resolveLimit echoManager timedParams = 100 \<and>
   resolveSince (Some (DriverError ''no connection'')) syncedDatabase ''golang'' timedParams =
     Inr 1699000000 \<and>
   resolveSince None emptyDatabase ''golang'' (scheduleParams cappedConfig) = Inr 0 \<and>
   monitorSubreddit echoManager deafDriver timedParams syncedDatabase exampleClock =
     scrape echoManager deafDriver syncedDatabase exampleClock ''golang'' 100 1699000000 \<and>
   resolveLimit echoManager paddedParams = 7 \<and>
   resolveSince (Some (DriverError ''no connection'')) syncedDatabase ''golang'' paddedParams =
     Inr 1699000000"
proof -
  have cap: "- (2 ^ 63) \<le> cfg_MaxPosts cappedConfig \<and> cfg_MaxPosts cappedConfig < 2 ^ 63"
    "cfg_MaxPosts cappedConfig = 50"
    by (simp_all add: cappedConfig_def exampleConfig_def)
  have timed: "timedParams ''limit'' = None"
    "timedParams ''since_timestamp'' = Some (StringParam (Itoa 1699000000))"
    "timedParams ''subreddit'' = Some (StringParam ''golang'')"
    by (simp_all add: timedParams_def)
  have padded: "paddedParams ''limit'' = Some (StringParam ''007'')"
    "paddedParams ''since_timestamp'' = Some (StringParam ''+1699000000'')"
    by (simp_all add: paddedParams_def)
  have stored: "FindOne (\<lambda>d. SubredditName d = ''golang'') (subreddit_metadata syncedDatabase) =
      Some syncedMetadata"
    "FindOne (\<lambda>d. SubredditName d = ''golang'') (subreddit_metadata emptyDatabase) = None"
    "\<not> IsZero (LastScrapedAt syncedMetadata)" "Unix (LastScrapedAt syncedMetadata) = 1699999000"
    by (simp_all add: FindOne_def syncedDatabase_def syncedMetadata_def emptyDatabase_def IsZero_def
        zeroTime_def Unix_def)
  show ?thesis
    using
      monitorSubreddit_resolves_parameters [where config = cappedConfig and tm = echoManager
        and params = "scheduleParams cappedConfig" and db = syncedDatabase and name = "''golang''"
        and n = 50 and t = 0 and err = None]
      monitorSubreddit_resolves_parameters [where config = cappedConfig and tm = echoManager
        and params = "scheduleParams cappedConfig" and db = emptyDatabase and name = "''golang''"
        and n = 50 and t = 0 and err = None]
      monitorSubreddit_resolves_parameters [where config = cappedConfig and tm = echoManager
        and params = timedParams and db = syncedDatabase and name = "''golang''"
        and n = 50 and t = 1699000000 and err = "Some (DriverError ''no connection'')"
        and outcomes = deafDriver and since = 1699000000 and clk = exampleClock and tm' = echoManager]
      monitorSubreddit_resolves_parameters [where tm = echoManager
        and params = paddedParams and db = syncedDatabase and name = "''golang''"
        and err = "Some (DriverError ''no connection'')"
        and limitStr = "''007''" and parsed = 7 and tsStr = "''+1699000000''" and ts = 1699000000]
      cap timed padded padded_numerals stored
    by (simp add: echoManager_def deafDriver_def)
qed

end
